theory Spec2Isabelle
  imports Complex_Main
begin

section \<open>Values of the JavaScript runtime\<close>

text \<open>
  The service of \<^verbatim>\<open>src/inject/websocketService.ts\<close> works on values that come out of
  \<^verbatim>\<open>JSON.parse\<close> and \<^verbatim>\<open>response.json()\<close>. Their TypeScript types are \<^verbatim>\<open>any\<close> (or an
  interface that nothing checks at run time), so the model keeps them dynamically typed.
  Strings are held as UTF-8 bytes; every pattern the program searches for is ASCII, so
  searching bytes and searching UTF-16 code units find the same places. Numbers are
  rationals: the program only passes them on, tests them against 0 and renders them.
\<close>

datatype jsval =
    JUndefined
  | JNull
  | JBool bool
  | JNum rat
  | JStr string
  | JArr "jsval list"
  | JObj "(string \<times> jsval) list"

text \<open>
  What a \<^verbatim>\<open>try\<close> block of the service can catch: an object made by \<^verbatim>\<open>new Error(m)\<close> in
  the source, a \<^verbatim>\<open>TypeError\<close> of the engine (reading a property of \<^verbatim>\<open>null\<close> or
  \<^verbatim>\<open>undefined\<close>, calling what is not a function; the argument names the property), or a
  value raised by a builtin or by the network (\<^verbatim>\<open>JSON.parse\<close>, \<^verbatim>\<open>fetch\<close>,
  \<^verbatim>\<open>response.json()\<close>, \<^verbatim>\<open>String\<close>), which is kept as its \<^verbatim>\<open>String()\<close> rendering.
\<close>

datatype thrown = Error string | TypeError string | Foreign string

text \<open>
  The builtins and the network, as far as the service uses them:
  \<^verbatim>\<open>JSON.parse\<close>; \<^verbatim>\<open>fetch(url, {credentials})\<close> followed by \<^verbatim>\<open>response.json()\<close> (the flag
  says whether \<^verbatim>\<open>credentials: 'include'\<close> was passed); \<^verbatim>\<open>String(v)\<close> and template
  interpolation of a parsed value; the message text of the engine's \<^verbatim>\<open>TypeError\<close>s.
\<close>

record runtime =
  JSON_parse :: "string \<Rightarrow> thrown + jsval"
  fetch_json :: "string \<Rightarrow> bool \<Rightarrow> thrown + jsval"
  ToString :: "jsval \<Rightarrow> thrown + string"
  typeErrorMessage :: "string \<Rightarrow> string"

definition errorToString :: "string \<Rightarrow> string \<Rightarrow> string" where
  \<comment> \<open>\<^verbatim>\<open>Error.prototype.toString\<close> for a name and a message\<close>
  "errorToString name msg =
     (if name = [] then msg else if msg = [] then name else name @ '': '' @ msg)"

fun String_thrown :: "runtime \<Rightarrow> thrown \<Rightarrow> string" where
  \<comment> \<open>\<^verbatim>\<open>String(error)\<close> in a catch block\<close>
  "String_thrown rt (Error m) = errorToString ''Error'' m"
| "String_thrown rt (TypeError p) = errorToString ''TypeError'' (typeErrorMessage rt p)"
| "String_thrown rt (Foreign s) = s"

fun truthy :: "jsval \<Rightarrow> bool" where
  "truthy JUndefined = False"
| "truthy JNull = False"
| "truthy (JBool b) = b"
| "truthy (JNum n) = (n \<noteq> 0)"
| "truthy (JStr s) = (s \<noteq> [])"
| "truthy (JArr xs) = True"
| "truthy (JObj kvs) = True"

definition js_or :: "jsval \<Rightarrow> jsval \<Rightarrow> jsval" where
  \<comment> \<open>\<^verbatim>\<open>a || b\<close>\<close>
  "js_or a b = (if truthy a then a else b)"

fun getProp :: "jsval \<Rightarrow> string \<Rightarrow> thrown + jsval" where
  \<comment> \<open>\<^verbatim>\<open>v.p\<close> for the data properties the service reads (\<^verbatim>\<open>type\<close>, \<^verbatim>\<open>code\<close>, \<^verbatim>\<open>data\<close>, ...):
      none of them is a builtin of a prototype, so only a parsed object can have one\<close>
  "getProp JUndefined p = Inl (TypeError p)"
| "getProp JNull p = Inl (TypeError p)"
| "getProp (JObj kvs) p = Inr (case map_of kvs p of None \<Rightarrow> JUndefined | Some v \<Rightarrow> v)"
| "getProp (JBool b) p = Inr JUndefined"
| "getProp (JNum n) p = Inr JUndefined"
| "getProp (JStr s) p = Inr JUndefined"
| "getProp (JArr xs) p = Inr JUndefined"

definition optProp :: "jsval \<Rightarrow> string \<Rightarrow> jsval" where
  \<comment> \<open>\<^verbatim>\<open>v?.p\<close>\<close>
  "optProp v p = (case v of JUndefined \<Rightarrow> JUndefined | JNull \<Rightarrow> JUndefined
                  | _ \<Rightarrow> (case getProp v p of Inl t \<Rightarrow> JUndefined | Inr x \<Rightarrow> x))"

fun getIndex0 :: "jsval \<Rightarrow> thrown + jsval" where
  \<comment> \<open>\<^verbatim>\<open>v[0]\<close>. Of a string it is its first character, of which the service only reads
      the property \<^verbatim>\<open>cid\<close>, which no string has\<close>
  "getIndex0 JUndefined = Inl (TypeError ''0'')"
| "getIndex0 JNull = Inl (TypeError ''0'')"
| "getIndex0 (JArr xs) = Inr (case xs of [] \<Rightarrow> JUndefined | x # rest \<Rightarrow> x)"
| "getIndex0 (JStr s) = Inr (case s of [] \<Rightarrow> JUndefined | c # rest \<Rightarrow> JStr [c])"
| "getIndex0 (JObj kvs) = Inr (case map_of kvs ''0'' of None \<Rightarrow> JUndefined | Some v \<Rightarrow> v)"
| "getIndex0 (JBool b) = Inr JUndefined"
| "getIndex0 (JNum n) = Inr JUndefined"

section \<open>String operations\<close>

definition startsWith :: "string \<Rightarrow> string \<Rightarrow> bool" where
  \<comment> \<open>\<^verbatim>\<open>s.startsWith(p)\<close>\<close>
  "startsWith s p = (take (length p) s = p)"

fun replace_first :: "string \<Rightarrow> string \<Rightarrow> string \<Rightarrow> string" where
  \<comment> \<open>\<^verbatim>\<open>s.replace(pat, rep)\<close> for a string pattern and a replacement without \<^verbatim>\<open>$\<close>:
      the leftmost occurrence is replaced\<close>
  "replace_first pat rep [] = (if pat = [] then rep else [])"
| "replace_first pat rep (c # cs) =
     (if startsWith (c # cs) pat then rep @ drop (length pat) (c # cs)
      else c # replace_first pat rep cs)"

definition word_char :: "char \<Rightarrow> bool" where
  \<comment> \<open>the class \<^verbatim>\<open>\w\<close> of a regular expression without flags\<close>
  "word_char c =
     (c \<in> set ''abcdefghijklmnopqrstuvwxyzABCDEFGHIJKLMNOPQRSTUVWXYZ0123456789_'')"

definition match_here :: "string \<Rightarrow> string option" where
  \<comment> \<open>\<^verbatim>\<open>/\/video\/(BV\w+)/\<close> tried at the start of \<open>s\<close>: the first capture group,
      with \<^verbatim>\<open>\w+\<close> greedy\<close>
  "match_here s =
     (let w = takeWhile word_char (drop 9 s)
      in if take 9 s = ''/video/BV'' \<and> w \<noteq> [] then Some (''BV'' @ w) else None)"

fun bvMatch :: "string \<Rightarrow> string option" where
  \<comment> \<open>\<^verbatim>\<open>url.match(/\/video\/(BV\w+)/)\<close>: the leftmost position where the pattern
      matches; \<open>None\<close> is \<^verbatim>\<open>null\<close>, \<open>Some g\<close> is a match with \<^verbatim>\<open>bvMatch[1] = g\<close>\<close>
  "bvMatch [] = None"
| "bvMatch (c # cs) =
     (case match_here (c # cs) of Some g \<Rightarrow> Some g | None \<Rightarrow> bvMatch cs)"

section \<open>Messages and effects\<close>

record SuccessData =
  title :: jsval
  author :: jsval
  url :: jsval
  ctime :: jsval
  subtitles :: jsval

record SubtitleResponse =
  type :: string
  requestId :: jsval
  data :: "SuccessData option"
  error :: "string option"

text \<open>
  What the request pipeline does to the outside: a line of \<^verbatim>\<open>this.log\<close> (its first
  argument), a \<^verbatim>\<open>fetch\<close> (the URL, and whether credentials are included), and
  \<^verbatim>\<open>this.ws.send(JSON.stringify(response))\<close>.
\<close>

datatype effect = Log string | Fetch string bool | Send SubtitleResponse

fun sends :: "effect list \<Rightarrow> SubtitleResponse list" where
  "sends [] = []"
| "sends (Send r # es) = r # sends es"
| "sends (e # es) = sends es"

fun fetches :: "effect list \<Rightarrow> (string \<times> bool) list" where
  "fetches [] = []"
| "fetches (Fetch u c # es) = (u, c) # fetches es"
| "fetches (e # es) = fetches es"

section \<open>Texts of the service\<close>

definition msg_recv :: string where
  \<comment> \<open>handleMessage: a message was decoded (12 bytes)\<close>
  "msg_recv = [
    CHR 0xE6, CHR 0x94, CHR 0xB6, CHR 0xE5, CHR 0x88, CHR 0xB0, CHR 0xE6, CHR 0xB6,
    CHR 0x88, CHR 0xE6, CHR 0x81, CHR 0xAF]"

definition msg_unknown_type :: string where
  \<comment> \<open>handleMessage: the type tag is not GET_SUBTITLE (18 bytes)\<close>
  "msg_unknown_type = [
    CHR 0xE6, CHR 0x9C, CHR 0xAA, CHR 0xE7, CHR 0x9F, CHR 0xA5, CHR 0xE6, CHR 0xB6,
    CHR 0x88, CHR 0xE6, CHR 0x81, CHR 0xAF, CHR 0xE7, CHR 0xB1, CHR 0xBB, CHR 0xE5,
    CHR 0x9E, CHR 0x8B]"

definition msg_parse_failed :: string where
  \<comment> \<open>handleMessage: the catch block (18 bytes)\<close>
  "msg_parse_failed = [
    CHR 0xE6, CHR 0xB6, CHR 0x88, CHR 0xE6, CHR 0x81, CHR 0xAF, CHR 0xE8, CHR 0xA7,
    CHR 0xA3, CHR 0xE6, CHR 0x9E, CHR 0x90, CHR 0xE5, CHR 0xA4, CHR 0xB1, CHR 0xE8,
    CHR 0xB4, CHR 0xA5]"

definition msg_begin :: string where
  \<comment> \<open>handleSubtitleRequest: first line (24 bytes)\<close>
  "msg_begin = [
    CHR 0xE5, CHR 0xBC, CHR 0x80, CHR 0xE5, CHR 0xA7, CHR 0x8B, CHR 0xE5, CHR 0xA4,
    CHR 0x84, CHR 0xE7, CHR 0x90, CHR 0x86, CHR 0xE5, CHR 0xAD, CHR 0x97, CHR 0xE5,
    CHR 0xB9, CHR 0x95, CHR 0xE8, CHR 0xAF, CHR 0xB7, CHR 0xE6, CHR 0xB1, CHR 0x82]"

definition msg_bvid_ok :: string where
  \<comment> \<open>handleSubtitleRequest: after extractBVID (17 bytes)\<close>
  "msg_bvid_ok = [
    CHR 0xE6, CHR 0x8F, CHR 0x90, CHR 0xE5, CHR 0x8F, CHR 0x96, CHR ''B'', CHR ''V'',
    CHR 0xE5, CHR 0x8F, CHR 0xB7, CHR 0xE6, CHR 0x88, CHR 0x90, CHR 0xE5, CHR 0x8A, CHR 0x9F]"

definition msg_info_ok :: string where
  \<comment> \<open>handleSubtitleRequest: after getVideoInfo (24 bytes)\<close>
  "msg_info_ok = [
    CHR 0xE8, CHR 0x8E, CHR 0xB7, CHR 0xE5, CHR 0x8F, CHR 0x96, CHR 0xE8, CHR 0xA7,
    CHR 0x86, CHR 0xE9, CHR 0xA2, CHR 0x91, CHR 0xE4, CHR 0xBF, CHR 0xA1, CHR 0xE6,
    CHR 0x81, CHR 0xAF, CHR 0xE6, CHR 0x88, CHR 0x90, CHR 0xE5, CHR 0x8A, CHR 0x9F]"

definition msg_list_ok :: string where
  \<comment> \<open>handleSubtitleRequest: after getSubtitleList (24 bytes)\<close>
  "msg_list_ok = [
    CHR 0xE8, CHR 0x8E, CHR 0xB7, CHR 0xE5, CHR 0x8F, CHR 0x96, CHR 0xE5, CHR 0xAD,
    CHR 0x97, CHR 0xE5, CHR 0xB9, CHR 0x95, CHR 0xE5, CHR 0x88, CHR 0x97, CHR 0xE8,
    CHR 0xA1, CHR 0xA8, CHR 0xE6, CHR 0x88, CHR 0x90, CHR 0xE5, CHR 0x8A, CHR 0x9F]"

definition msg_download_ok :: string where
  \<comment> \<open>handleSubtitleRequest: after downloadSubtitle (18 bytes)\<close>
  "msg_download_ok = [
    CHR 0xE5, CHR 0xAD, CHR 0x97, CHR 0xE5, CHR 0xB9, CHR 0x95, CHR 0xE4, CHR 0xB8,
    CHR 0x8B, CHR 0xE8, CHR 0xBD, CHR 0xBD, CHR 0xE6, CHR 0x88, CHR 0x90, CHR 0xE5,
    CHR 0x8A, CHR 0x9F]"

definition msg_sent_ok :: string where
  \<comment> \<open>handleSubtitleRequest: after sendResponse (24 bytes)\<close>
  "msg_sent_ok = [
    CHR 0xE5, CHR 0xAD, CHR 0x97, CHR 0xE5, CHR 0xB9, CHR 0x95, CHR 0xE6, CHR 0x95,
    CHR 0xB0, CHR 0xE6, CHR 0x8D, CHR 0xAE, CHR 0xE5, CHR 0x8F, CHR 0x91, CHR 0xE9,
    CHR 0x80, CHR 0x81, CHR 0xE6, CHR 0x88, CHR 0x90, CHR 0xE5, CHR 0x8A, CHR 0x9F]"

definition msg_failed :: string where
  \<comment> \<open>handleSubtitleRequest: the catch block (24 bytes)\<close>
  "msg_failed = [
    CHR 0xE5, CHR 0xA4, CHR 0x84, CHR 0xE7, CHR 0x90, CHR 0x86, CHR 0xE5, CHR 0xAD,
    CHR 0x97, CHR 0xE5, CHR 0xB9, CHR 0x95, CHR 0xE8, CHR 0xAF, CHR 0xB7, CHR 0xE6,
    CHR 0xB1, CHR 0x82, CHR 0xE5, CHR 0xA4, CHR 0xB1, CHR 0xE8, CHR 0xB4, CHR 0xA5]"

definition msg_not_connected :: string where
  \<comment> \<open>sendResponse: the else branch (39 bytes)\<close>
  "msg_not_connected = [
    CHR ''W'', CHR ''e'', CHR ''b'', CHR ''S'', CHR ''o'', CHR ''c'', CHR ''k'', CHR ''e'',
    CHR ''t'', CHR 0xE6, CHR 0x9C, CHR 0xAA, CHR 0xE8, CHR 0xBF, CHR 0x9E, CHR 0xE6,
    CHR 0x8E, CHR 0xA5, CHR 0xEF, CHR 0xBC, CHR 0x8C, CHR 0xE6, CHR 0x97, CHR 0xA0,
    CHR 0xE6, CHR 0xB3, CHR 0x95, CHR 0xE5, CHR 0x8F, CHR 0x91, CHR 0xE9, CHR 0x80,
    CHR 0x81, CHR 0xE5, CHR 0x93, CHR 0x8D, CHR 0xE5, CHR 0xBA, CHR 0x94]"

definition err_no_subtitle :: string where
  \<comment> \<open>handleSubtitleRequest: the filtered track list is empty (30 bytes)\<close>
  "err_no_subtitle = [
    CHR 0xE8, CHR 0xAF, CHR 0xA5, CHR 0xE8, CHR 0xA7, CHR 0x86, CHR 0xE9, CHR 0xA2,
    CHR 0x91, CHR 0xE6, CHR 0xB2, CHR 0xA1, CHR 0xE6, CHR 0x9C, CHR 0x89, CHR 0xE5,
    CHR 0x8F, CHR 0xAF, CHR 0xE7, CHR 0x94, CHR 0xA8, CHR 0xE7, CHR 0x9A, CHR 0x84,
    CHR 0xE5, CHR 0xAD, CHR 0x97, CHR 0xE5, CHR 0xB9, CHR 0x95]"

definition err_no_bvid :: string where
  \<comment> \<open>extractBVID: the pattern does not match (53 bytes)\<close>
  "err_no_bvid = [
    CHR 0xE6, CHR 0x97, CHR 0xA0, CHR 0xE6, CHR 0xB3, CHR 0x95, CHR 0xE4, CHR 0xBB,
    CHR 0x8E, CHR ''U'', CHR ''R'', CHR ''L'', CHR 0xE4, CHR 0xB8, CHR 0xAD, CHR 0xE6,
    CHR 0x8F, CHR 0x90, CHR 0xE5, CHR 0x8F, CHR 0x96, CHR ''B'', CHR ''V'', CHR 0xE5,
    CHR 0x8F, CHR 0xB7, CHR 0xEF, CHR 0xBC, CHR 0x8C, CHR 0xE8, CHR 0xAF, CHR 0xB7,
    CHR 0xE7, CHR 0xA1, CHR 0xAE, CHR 0xE4, CHR 0xBF, CHR 0x9D, CHR ''U'', CHR ''R'',
    CHR ''L'', CHR 0xE6, CHR 0xA0, CHR 0xBC, CHR 0xE5, CHR 0xBC, CHR 0x8F, CHR 0xE6,
    CHR 0xAD, CHR 0xA3, CHR 0xE7, CHR 0xA1, CHR 0xAE]"

definition err_info_prefix :: string where
  \<comment> \<open>getVideoInfo: prefix of the message when code is not 0 (26 bytes)\<close>
  "err_info_prefix = [
    CHR 0xE8, CHR 0x8E, CHR 0xB7, CHR 0xE5, CHR 0x8F, CHR 0x96, CHR 0xE8, CHR 0xA7,
    CHR 0x86, CHR 0xE9, CHR 0xA2, CHR 0x91, CHR 0xE4, CHR 0xBF, CHR 0xA1, CHR 0xE6,
    CHR 0x81, CHR 0xAF, CHR 0xE5, CHR 0xA4, CHR 0xB1, CHR 0xE8, CHR 0xB4, CHR 0xA5,
    CHR 0x3A, CHR 0x20]"

definition err_list_prefix :: string where
  \<comment> \<open>getSubtitleList: prefix of the message when code is not 0 (26 bytes)\<close>
  "err_list_prefix = [
    CHR 0xE8, CHR 0x8E, CHR 0xB7, CHR 0xE5, CHR 0x8F, CHR 0x96, CHR 0xE5, CHR 0xAD,
    CHR 0x97, CHR 0xE5, CHR 0xB9, CHR 0x95, CHR 0xE5, CHR 0x88, CHR 0x97, CHR 0xE8,
    CHR 0xA1, CHR 0xA8, CHR 0xE5, CHR 0xA4, CHR 0xB1, CHR 0xE8, CHR 0xB4, CHR 0xA5,
    CHR 0x3A, CHR 0x20]"

definition unknown_author :: string where
  \<comment> \<open>handleSubtitleRequest: placeholder author (12 bytes)\<close>
  "unknown_author = [
    CHR 0xE6, CHR 0x9C, CHR 0xAA, CHR 0xE7, CHR 0x9F, CHR 0xA5, CHR 0xE4, CHR 0xBD,
    CHR 0x9C, CHR 0xE8, CHR 0x80, CHR 0x85]"

section \<open>The connection manager\<close>

text \<open>
  The three fields of the service object, and what the browser holds for it: the
  \<^verbatim>\<open>readyState\<close> of every socket object created so far (handles \<open>0..<sockets\<close>), the
  timeouts that are pending, and the last handle \<^verbatim>\<open>setTimeout\<close> returned (handles are
  positive integers, each one new).
\<close>

datatype readyState = CONNECTING | OPEN | CLOSING | CLOSED

record world =
  ws :: "nat option"
  reconnectTimer :: "nat option"
  isConnecting :: bool
  readyStateOf :: "nat \<Rightarrow> readyState"
  sockets :: nat
  timers :: "nat list"
  lastTimer :: nat

definition timerSet :: "nat option \<Rightarrow> bool" where
  \<comment> \<open>\<^verbatim>\<open>if (this.reconnectTimer)\<close>: \<^verbatim>\<open>null\<close> and the number 0 are falsy\<close>
  "timerSet h = (case h of None \<Rightarrow> False | Some t \<Rightarrow> t \<noteq> 0)"

definition wsOpen :: "world \<Rightarrow> bool" where
  \<comment> \<open>\<^verbatim>\<open>this.ws && this.ws.readyState === WebSocket.OPEN\<close>\<close>
  "wsOpen w = (case ws w of None \<Rightarrow> False | Some h \<Rightarrow> readyStateOf w h = OPEN)"

definition scheduleReconnect :: "world \<Rightarrow> world" where
  "scheduleReconnect w =
     (if timerSet (reconnectTimer w) then w
      else let t = Suc (lastTimer w)
           in w\<lparr>reconnectTimer := Some t, timers := timers w @ [t], lastTimer := t\<rparr>)"

definition connect :: "bool \<Rightarrow> world \<Rightarrow> world" where
  \<comment> \<open>\<open>throws\<close>: whether \<^verbatim>\<open>new WebSocket(this.serverUrl)\<close> raises\<close>
  "connect throws w =
     (if isConnecting w \<or> wsOpen w then w
      else if throws then scheduleReconnect (w\<lparr>isConnecting := False\<rparr>)
      else w\<lparr>isConnecting := True,
             ws := Some (sockets w),
             readyStateOf := (readyStateOf w)(sockets w := CONNECTING),
             sockets := Suc (sockets w)\<rparr>)"

definition onopen :: "world \<Rightarrow> world" where
  "onopen w =
     (let w1 = w\<lparr>isConnecting := False\<rparr>
      in if timerSet (reconnectTimer w1)
         then w1\<lparr>timers := removeAll (the (reconnectTimer w1)) (timers w1),
                 reconnectTimer := None\<rparr>
         else w1)"

definition onclose :: "world \<Rightarrow> world" where
  "onclose w = scheduleReconnect (w\<lparr>isConnecting := False\<rparr>)"

definition onerror :: "world \<Rightarrow> world" where
  "onerror w = scheduleReconnect (w\<lparr>isConnecting := False\<rparr>)"

definition onTimeout :: "bool \<Rightarrow> world \<Rightarrow> world" where
  \<comment> \<open>the callback given to \<^verbatim>\<open>setTimeout\<close> in \<^verbatim>\<open>scheduleReconnect\<close>\<close>
  "onTimeout throws w = connect throws (w\<lparr>reconnectTimer := None\<rparr>)"

definition start :: "bool \<Rightarrow> world" where
  \<comment> \<open>the constructor: the fields' initial values, then \<^verbatim>\<open>start()\<close>, that is \<^verbatim>\<open>connect()\<close>\<close>
  "start throws =
     connect throws
       \<lparr>ws = None, reconnectTimer = None, isConnecting = False,
        readyStateOf = (\<lambda>h. CLOSED), sockets = 0, timers = [], lastTimer = 0\<rparr>"

text \<open>
  The events the browser delivers. A socket event names its socket, since the handlers of a
  socket the service has replaced stay attached; the browser moves the socket's
  \<^verbatim>\<open>readyState\<close> before it calls the handler. A timeout fires only while it is pending, and
  is no longer pending when its callback runs. An event that cannot occur leaves the world
  as it is.
\<close>

datatype event =
    SocketOpen nat
  | SocketClose nat
  | SocketError nat
  | TimerFire nat bool

fun step :: "world \<Rightarrow> event \<Rightarrow> world" where
  "step w (SocketOpen h) =
     (if h < sockets w \<and> readyStateOf w h = CONNECTING
      then onopen (w\<lparr>readyStateOf := (readyStateOf w)(h := OPEN)\<rparr>) else w)"
| "step w (SocketClose h) =
     (if h < sockets w \<and> readyStateOf w h \<noteq> CLOSED
      then onclose (w\<lparr>readyStateOf := (readyStateOf w)(h := CLOSED)\<rparr>) else w)"
| "step w (SocketError h) =
     (if h < sockets w then onerror w else w)"
| "step w (TimerFire t throws) =
     (if t \<in> set (timers w) then onTimeout throws (w\<lparr>timers := removeAll t (timers w)\<rparr>)
      else w)"

definition run :: "bool \<Rightarrow> event list \<Rightarrow> world" where
  \<comment> \<open>the service after its construction and a sequence of events\<close>
  "run throws evs = foldl step (start throws) evs"

section \<open>The request pipeline\<close>

text \<open>
  A computation of the pipeline gives the effects it had, in order, and either the value
  it threw or its result. \<open>io_bind\<close> is sequencing (and \<^verbatim>\<open>await\<close>): what follows a throw
  does not run.
\<close>

type_synonym 'a io = "effect list \<times> (thrown + 'a)"

definition io_lift :: "thrown + 'a \<Rightarrow> 'a io" where
  "io_lift r = ([], r)"

definition io_throw :: "thrown \<Rightarrow> 'a io" where
  "io_throw t = ([], Inl t)"

definition io_do :: "effect list \<Rightarrow> unit io" where
  "io_do es = (es, Inr ())"

definition io_bind :: "'a io \<Rightarrow> ('a \<Rightarrow> 'b io) \<Rightarrow> 'b io" where
  "io_bind m f =
     (case m of
        (es, Inl t) \<Rightarrow> (es, Inl t)
      | (es, Inr a) \<Rightarrow> (case f a of (es', r) \<Rightarrow> (es @ es', r)))"

definition fetchJson :: "runtime \<Rightarrow> string \<Rightarrow> bool \<Rightarrow> jsval io" where
  \<comment> \<open>\<^verbatim>\<open>await (await fetch(url, ...)).json()\<close>\<close>
  "fetchJson rt u credentials = ([Fetch u credentials], fetch_json rt u credentials)"

definition sendResponse :: "world \<Rightarrow> SubtitleResponse \<Rightarrow> effect list" where
  "sendResponse w response =
     (if wsOpen w then [Send response] else [Log msg_not_connected])"

definition extractBVID :: "jsval \<Rightarrow> thrown + string" where
  "extractBVID u =
     (case u of
        JStr s \<Rightarrow> (case bvMatch s of None \<Rightarrow> Inl (Error err_no_bvid) | Some g \<Rightarrow> Inr g)
      | _ \<Rightarrow> Inl (TypeError ''match''))"

definition getVideoInfo :: "runtime \<Rightarrow> string \<Rightarrow> jsval io" where
  "getVideoInfo rt bvid =
     io_bind (fetchJson rt (''https://api.bilibili.com/x/web-interface/view?bvid='' @ bvid) True)
       (\<lambda>result.
     io_bind (io_lift (getProp result ''code'')) (\<lambda>code.
       if code \<noteq> JNum 0
       then io_bind (io_lift (getProp result ''message'')) (\<lambda>m.
            io_bind (io_lift (ToString rt m)) (\<lambda>s.
              io_throw (Error (err_info_prefix @ s))))
       else io_lift (getProp result ''data'')))"

fun filterTracks :: "jsval list \<Rightarrow> thrown + jsval list" where
  \<comment> \<open>\<^verbatim>\<open>.filter((item) => item.subtitle_url)\<close>\<close>
  "filterTracks [] = Inr []"
| "filterTracks (item # items) =
     (case getProp item ''subtitle_url'' of
        Inl t \<Rightarrow> Inl t
      | Inr u \<Rightarrow>
          (case filterTracks items of
             Inl t \<Rightarrow> Inl t
           | Inr kept \<Rightarrow> Inr (if truthy u then item # kept else kept)))"

definition getSubtitleList :: "runtime \<Rightarrow> jsval \<Rightarrow> jsval \<Rightarrow> jsval list io" where
  "getSubtitleList rt aid cid =
     io_bind (io_lift (ToString rt aid)) (\<lambda>a.
     io_bind (io_lift (ToString rt cid)) (\<lambda>c.
     io_bind (fetchJson rt
        (''https://api.bilibili.com/x/player/wbi/v2?aid='' @ a @ ''&cid='' @ c) True)
       (\<lambda>result.
     io_bind (io_lift (getProp result ''code'')) (\<lambda>code.
       if code \<noteq> JNum 0
       then io_bind (io_lift (getProp result ''message'')) (\<lambda>m.
            io_bind (io_lift (ToString rt m)) (\<lambda>s.
              io_throw (Error (err_list_prefix @ s))))
       else
         io_bind (io_lift (getProp result ''data'')) (\<lambda>d.
         io_bind (io_lift (getProp d ''subtitle'')) (\<lambda>sub.
         io_bind (io_lift (getProp sub ''subtitles'')) (\<lambda>tracks.
           case tracks of
             JArr items \<Rightarrow> io_lift (filterTracks items)
           | _ \<Rightarrow> io_throw (TypeError ''filter''))))))))"

definition secureUrl :: "string \<Rightarrow> string" where
  \<comment> \<open>lines 214 to 216 of \<^verbatim>\<open>downloadSubtitle\<close>\<close>
  "secureUrl u =
     (if startsWith u ''http://'' then replace_first ''http://'' ''https://'' u else u)"

definition downloadSubtitle :: "runtime \<Rightarrow> jsval \<Rightarrow> jsval io" where
  "downloadSubtitle rt subtitleInfo =
     io_bind (io_lift (getProp subtitleInfo ''subtitle_url'')) (\<lambda>u.
       case u of
         JStr s \<Rightarrow> fetchJson rt (secureUrl s) False
       | _ \<Rightarrow> io_throw (TypeError ''startsWith''))"

definition successResponse ::
  "jsval \<Rightarrow> jsval \<Rightarrow> jsval \<Rightarrow> jsval \<Rightarrow> jsval \<Rightarrow> jsval \<Rightarrow> SubtitleResponse" where
  \<comment> \<open>lines 146 to 156, from the values of \<^verbatim>\<open>request.requestId\<close>, \<^verbatim>\<open>videoInfo.title\<close>,
      \<^verbatim>\<open>videoInfo.owner\<close>, \<^verbatim>\<open>request.videoUrl\<close>, \<^verbatim>\<open>videoInfo.ctime\<close> and
      \<^verbatim>\<open>subtitleData.body\<close>\<close>
  "successResponse rid ttl owner videoUrl ct body =
     \<lparr>type = ''SUBTITLE_RESULT'',
      requestId = rid,
      data = Some
        \<lparr>title = ttl,
         author = js_or (optProp owner ''name'') (JStr unknown_author),
         url = videoUrl,
         ctime = ct,
         subtitles = js_or body (JArr [])\<rparr>,
      error = None\<rparr>"

definition errorResponse :: "jsval \<Rightarrow> string \<Rightarrow> SubtitleResponse" where
  \<comment> \<open>lines 163 to 167, from the values of \<^verbatim>\<open>request.requestId\<close> and \<^verbatim>\<open>String(error)\<close>\<close>
  "errorResponse rid rendered =
     \<lparr>type = ''SUBTITLE_RESULT'', requestId = rid, data = None, error = Some rendered\<rparr>"

definition tryBlock :: "runtime \<Rightarrow> world \<Rightarrow> jsval \<Rightarrow> unit io" where
  \<comment> \<open>lines 123 to 159, the body of the \<^verbatim>\<open>try\<close>. The expressions that are only logged
      are evaluated as well, since reading a property can throw. \<open>w\<close> is the connection
      at the moment the response is handed to \<^verbatim>\<open>sendResponse\<close>\<close>
  "tryBlock rt w request =
     io_bind (io_lift (getProp request ''videoUrl'')) (\<lambda>videoUrl.
     io_bind (io_lift (extractBVID videoUrl)) (\<lambda>bvid.
     io_bind (io_do [Log msg_bvid_ok]) (\<lambda>u1.
     io_bind (getVideoInfo rt bvid) (\<lambda>videoInfo.
     io_bind (io_lift (getProp videoInfo ''title'')) (\<lambda>logTitle.
     io_bind (io_lift (getProp videoInfo ''aid'')) (\<lambda>logAid.
     io_bind (io_do [Log msg_info_ok]) (\<lambda>u2.
     io_bind (io_lift (getProp videoInfo ''pages'')) (\<lambda>pages.
     io_bind (io_lift (getIndex0 pages)) (\<lambda>pageInfo.
     io_bind (io_lift (getProp videoInfo ''aid'')) (\<lambda>aid.
     io_bind (io_lift (getProp pageInfo ''cid'')) (\<lambda>cid.
     io_bind (getSubtitleList rt aid cid) (\<lambda>subtitleList.
       case subtitleList of
         [] \<Rightarrow> io_throw (Error err_no_subtitle)
       | first # others \<Rightarrow>
     io_bind (io_do [Log msg_list_ok]) (\<lambda>u3.
     io_bind (downloadSubtitle rt first) (\<lambda>subtitleData.
     io_bind (io_lift (getProp subtitleData ''body'')) (\<lambda>logBody.
     io_bind (io_do [Log msg_download_ok]) (\<lambda>u4.
     io_bind (io_lift (getProp request ''requestId'')) (\<lambda>rid.
     io_bind (io_lift (getProp videoInfo ''title'')) (\<lambda>ttl.
     io_bind (io_lift (getProp videoInfo ''owner'')) (\<lambda>owner.
     io_bind (io_lift (getProp request ''videoUrl'')) (\<lambda>reqUrl.
     io_bind (io_lift (getProp videoInfo ''ctime'')) (\<lambda>ct.
     io_bind (io_lift (getProp subtitleData ''body'')) (\<lambda>body.
     io_bind (io_do (sendResponse w (successResponse rid ttl owner reqUrl ct body))) (\<lambda>u5.
       io_do [Log msg_sent_ok])))))))))))))))))))))))"

definition handleSubtitleRequest :: "runtime \<Rightarrow> world \<Rightarrow> jsval \<Rightarrow> effect list" where
  \<comment> \<open>line 120 is outside the \<^verbatim>\<open>try\<close>: if it throws, the promise is rejected and nothing
      else happens; so for a throw inside the \<^verbatim>\<open>catch\<close> block\<close>
  "handleSubtitleRequest rt w request =
     (case getProp request ''videoUrl'' of
        Inl t \<Rightarrow> []
      | Inr logUrl \<Rightarrow>
          Log msg_begin #
          (case tryBlock rt w request of
             (es, Inr u) \<Rightarrow> es
           | (es, Inl e) \<Rightarrow>
               es @ Log msg_failed #
               (case getProp request ''requestId'' of
                  Inl t \<Rightarrow> []
                | Inr rid \<Rightarrow> sendResponse w (errorResponse rid (String_thrown rt e)))))"

definition handleMessage :: "runtime \<Rightarrow> world \<Rightarrow> string \<Rightarrow> effect list" where
  \<comment> \<open>\<^verbatim>\<open>handleSubtitleRequest\<close> is \<^verbatim>\<open>async\<close> and not awaited: nothing it throws reaches
      the \<^verbatim>\<open>catch\<close> here\<close>
  "handleMessage rt w raw =
     (case JSON_parse rt raw of
        Inl e \<Rightarrow> [Log msg_parse_failed]
      | Inr message \<Rightarrow>
          Log msg_recv #
          (case getProp message ''type'' of
             Inl e \<Rightarrow> [Log msg_parse_failed]
           | Inr tag \<Rightarrow>
               if tag = JStr ''GET_SUBTITLE'' then handleSubtitleRequest rt w message
               else [Log msg_unknown_type]))"

section \<open>The end-to-end scenarios of the specification\<close>

text \<open>
  A runtime for the scenarios. The metadata API answers for \<^verbatim>\<open>BV1xx411c7mD\<close> with title T,
  the given owner, creation time 1000, video id 7 and one page of content id 55; the
  caption-list API answers with the given tracks; the caption document has one line. Every
  other fetch is rejected. Scenario A has the owner A and one track, whose URL has the
  insecure scheme; scenario B has no track; scenario C has a URL without a video
  identifier.
\<close>

definition demoToString :: "jsval \<Rightarrow> thrown + string" where
  \<comment> \<open>\<^verbatim>\<open>String\<close>, right on the values that occur in the scenarios\<close>
  "demoToString v =
     (case v of
        JStr s \<Rightarrow> Inr s
      | JNum n \<Rightarrow> if n = 7 then Inr ''7'' else if n = 55 then Inr ''55'' else Inr ''0''
      | JUndefined \<Rightarrow> Inr ''undefined''
      | JNull \<Rightarrow> Inr ''null''
      | JBool b \<Rightarrow> Inr (if b then ''true'' else ''false'')
      | JArr xs \<Rightarrow> Inr []
      | JObj kvs \<Rightarrow> Inr ''[object Object]'')"

definition demoUrl :: string where
  "demoUrl = ''https://www.bilibili.com/video/BV1xx411c7mD''"

definition demoRequest :: "string \<Rightarrow> jsval" where
  "demoRequest u =
     JObj [(''type'', JStr ''GET_SUBTITLE''), (''videoUrl'', JStr u), (''requestId'', JStr ''r1'')]"

definition demoVideoInfo :: "jsval \<Rightarrow> jsval" where
  "demoVideoInfo owner =
     JObj [(''title'', JStr ''T''), (''owner'', owner), (''ctime'', JNum 1000),
           (''aid'', JNum 7), (''pages'', JArr [JObj [(''cid'', JNum 55)]])]"

definition demoLine :: jsval where
  "demoLine = JObj [(''from'', JNum 0), (''to'', JNum 2), (''content'', JStr ''hi'')]"

definition demoFetch :: "jsval \<Rightarrow> jsval list \<Rightarrow> string \<Rightarrow> bool \<Rightarrow> thrown + jsval" where
  "demoFetch owner tracks u credentials =
     (if u = ''https://api.bilibili.com/x/web-interface/view?bvid=BV1xx411c7mD''
      then Inr (JObj [(''code'', JNum 0), (''data'', demoVideoInfo owner)])
      else if u = ''https://api.bilibili.com/x/player/wbi/v2?aid=7&cid=55''
      then Inr (JObj [(''code'', JNum 0),
             (''data'', JObj [(''subtitle'', JObj [(''subtitles'', JArr tracks)])])])
      else if u = ''https://i0.hdslb.com/bfs/subtitle/a.json''
      then Inr (JObj [(''body'', JArr [demoLine])])
      else Inl (Foreign ''TypeError: Failed to fetch''))"

definition rawRequestA :: string where
  \<open>rawRequestA =
     ''{"type":"GET_SUBTITLE","videoUrl":"https://www.bilibili.com/video/BV1xx411c7mD","requestId":"r1"}''\<close>

definition rawRequestC :: string where
  \<open>rawRequestC =
     ''{"type":"GET_SUBTITLE","videoUrl":"https://www.bilibili.com/","requestId":"r1"}''\<close>

definition rawPing :: string where
  \<open>rawPing = ''{"type":"PING"}''\<close>

definition demoParse :: "string \<Rightarrow> thrown + jsval" where
  \<comment> \<open>\<^verbatim>\<open>JSON.parse\<close> on four texts; any other text counts as malformed here\<close>
  "demoParse raw =
     (if raw = rawRequestA then Inr (demoRequest demoUrl)
      else if raw = rawRequestC then Inr (demoRequest ''https://www.bilibili.com/'')
      else if raw = rawPing then Inr (JObj [(''type'', JStr ''PING'')])
      else if raw = ''null'' then Inr JNull
      else Inl (Foreign ''SyntaxError: Unexpected token''))"

definition demoRuntime :: "jsval \<Rightarrow> jsval list \<Rightarrow> runtime" where
  "demoRuntime owner tracks =
     \<lparr>JSON_parse = demoParse,
      fetch_json = demoFetch owner tracks,
      ToString = demoToString,
      typeErrorMessage = (\<lambda>p. ''Cannot read properties of undefined'')\<rparr>"

definition demoTrack :: jsval where
  "demoTrack = JObj [(''lan'', JStr ''zh''),
                     (''subtitle_url'', JStr ''http://i0.hdslb.com/bfs/subtitle/a.json'')]"

definition openWorld :: world where
  \<comment> \<open>the service after its socket has opened\<close>
  "openWorld = step (start False) (SocketOpen 0)"

section \<open>Auxiliary notions for the proofs\<close>

definition timerInv :: "world \<Rightarrow> bool" where
  \<comment> \<open>the browser's pending timeouts are exactly the one the service holds a handle of\<close>
  "timerInv w =
     (case reconnectTimer w of None \<Rightarrow> timers w = [] | Some t \<Rightarrow> 0 < t \<and> timers w = [t])"

definition authorOf :: "SubtitleResponse \<Rightarrow> jsval option" where
  "authorOf r = map_option author (data r)"

definition spec_author :: "jsval \<Rightarrow> jsval" where
  \<comment> \<open>the author of the success payload in the words of the specification: the display
      name of the metadata's owner, or the placeholder when it is absent\<close>
  "spec_author videoInfo =
     (case optProp (optProp videoInfo ''owner'') ''name'' of
        JUndefined \<Rightarrow> JStr unknown_author
      | JNull \<Rightarrow> JStr unknown_author
      | name \<Rightarrow> name)"

section \<open>The caption URL (downloadSubtitle)\<close>

lemma startsWith_replace_first:
  "startsWith s pat \<Longrightarrow> pat \<noteq> [] \<Longrightarrow> replace_first pat rep s = rep @ drop (length pat) s"
  by (cases s) (auto simp: startsWith_def)

lemma startsWith_append: "startsWith s p \<Longrightarrow> s = p @ drop (length p) s"
  unfolding startsWith_def by (metis append_take_drop_id)

lemma secureUrl_eq:
  "secureUrl u = (if startsWith u ''http://'' then ''https://'' @ drop 7 u else u)"
proof (cases "startsWith u ''http://''")
  case True
  have len: "length ''http://'' = 7" by simp
  have "replace_first ''http://'' ''https://'' u = ''https://'' @ drop (length ''http://'') u"
    using True by (rule startsWith_replace_first) simp
  with True show ?thesis unfolding secureUrl_def len by simp
next
  case False
  then show ?thesis by (simp add: secureUrl_def)
qed

lemma https_not_http: "startsWith u ''https://'' \<Longrightarrow> \<not> startsWith u ''http://''"
proof
  assume a: "startsWith u ''https://''" and b: "startsWith u ''http://''"
  from a obtain r where "u = ''https://'' @ r" using startsWith_append by blast
  with b show False by (simp add: startsWith_def)
qed

text \<open>
  Claim C5. In \<^verbatim>\<open>downloadSubtitle\<close>, a caption URL that begins with \<^verbatim>\<open>http://\<close> is fetched
  as \<^verbatim>\<open>https://\<close> followed by the rest of the URL; any other caption URL, and so every
  \<^verbatim>\<open>https://\<close> URL, is fetched as it is. Nothing else is fetched, and the fetch carries no
  credentials.
\<close>

theorem downloadSubtitle_url_upgrade:
  assumes "getProp subtitleInfo ''subtitle_url'' = Inr (JStr u)"
  shows "fetches (fst (downloadSubtitle rt subtitleInfo)) =
           [(if startsWith u ''http://'' then ''https://'' @ drop 7 u else u, False)]
         \<and> (startsWith u ''https://'' \<longrightarrow>
              fetches (fst (downloadSubtitle rt subtitleInfo)) = [(u, False)])"
proof -
  have "fst (downloadSubtitle rt subtitleInfo) = [Fetch (secureUrl u) False]"
    using assms by (simp add: downloadSubtitle_def io_bind_def io_lift_def fetchJson_def)
  then show ?thesis
    using https_not_http[of u] by (auto simp: secureUrl_eq)
qed

theorem downloadSubtitle_url_upgrade_witness:
  "fetches (fst (downloadSubtitle (demoRuntime JNull []) demoTrack)) =
     [(''https://i0.hdslb.com/bfs/subtitle/a.json'', False)]
   \<and> fetches (fst (downloadSubtitle (demoRuntime JNull [])
        (JObj [(''subtitle_url'', JStr ''https://i0.hdslb.com/bfs/subtitle/a.json'')]))) =
     [(''https://i0.hdslb.com/bfs/subtitle/a.json'', False)]"
  using downloadSubtitle_url_upgrade
          [of demoTrack "''http://i0.hdslb.com/bfs/subtitle/a.json''" "demoRuntime JNull []"]
        downloadSubtitle_url_upgrade
          [of "JObj [(''subtitle_url'', JStr ''https://i0.hdslb.com/bfs/subtitle/a.json'')]"
              "''https://i0.hdslb.com/bfs/subtitle/a.json''" "demoRuntime JNull []"]
  by (simp add: demoTrack_def startsWith_def)

section \<open>Sending (sendResponse)\<close>

text \<open>
  Claim C9. \<^verbatim>\<open>sendResponse\<close> transmits the message if and only if the service holds a
  socket and that socket is open. In every other state its only effect is a log line: the
  message is not transmitted, and since the function returns effects only, it raises
  nothing and leaves the service (which has no queue) as it was.
\<close>

theorem sendResponse_open_only:
  "sendResponse w response =
     (if (\<exists>h. ws w = Some h \<and> readyStateOf w h = OPEN) then [Send response]
      else [Log msg_not_connected])"
  by (auto simp: sendResponse_def wsOpen_def split: option.splits)

theorem sendResponse_open_only_witness:
  "sendResponse openWorld (errorResponse (JStr ''r1'') ''e'') =
     [Send (errorResponse (JStr ''r1'') ''e'')]
   \<and> sendResponse (start False) (errorResponse (JStr ''r1'') ''e'') = [Log msg_not_connected]"
  using sendResponse_open_only[of openWorld "errorResponse (JStr ''r1'') ''e''"]
        sendResponse_open_only[of "start False" "errorResponse (JStr ''r1'') ''e''"]
  by (simp add: openWorld_def start_def connect_def wsOpen_def onopen_def timerSet_def)

section \<open>Effects of the pipeline\<close>

lemma sends_append: "sends (xs @ ys) = sends xs @ sends ys"
  by (induction xs rule: sends.induct) simp_all

lemma fetches_append: "fetches (xs @ ys) = fetches xs @ fetches ys"
  by (induction xs rule: fetches.induct) simp_all

lemma fst_io_bind:
  "fst (io_bind m f) = fst m @ (case snd m of Inl t \<Rightarrow> [] | Inr a \<Rightarrow> fst (f a))"
  by (simp add: io_bind_def split: prod.splits sum.splits)

lemma snd_io_bind:
  "snd (io_bind m f) = (case snd m of Inl t \<Rightarrow> Inl t | Inr a \<Rightarrow> snd (f a))"
  by (simp add: io_bind_def split: prod.splits sum.splits)

lemma fst_io_lift: "fst (io_lift r) = []" and snd_io_lift: "snd (io_lift r) = r"
  by (simp_all add: io_lift_def)

lemma fst_io_throw: "fst (io_throw t) = []" and snd_io_throw: "snd (io_throw t) = Inl t"
  by (simp_all add: io_throw_def)

lemma fst_io_do: "fst (io_do es) = es" and snd_io_do: "snd (io_do es) = Inr ()"
  by (simp_all add: io_do_def)

lemmas io_simps = fst_io_bind snd_io_bind fst_io_lift snd_io_lift fst_io_throw snd_io_throw
  fst_io_do snd_io_do

lemma io_bind_lift_Inr: "io_bind (io_lift (Inr a)) f = f a"
  by (simp add: io_bind_def io_lift_def split: prod.splits)

lemma io_bind_lift_Inl: "io_bind (io_lift (Inl t)) f = ([], Inl t)"
  by (simp add: io_bind_def io_lift_def)

lemma io_bind_Inr: "io_bind (es, Inr a) f = (es @ fst (f a), snd (f a))"
  by (simp add: io_bind_def split: prod.splits)

lemma io_bind_Inl: "io_bind (es, Inl t) f = (es, Inl t)"
  by (simp add: io_bind_def)

lemma io_bind_do: "io_bind (io_do es) f = (es @ fst (f ()), snd (f ()))"
  by (simp add: io_do_def io_bind_Inr)

lemmas io_run = io_bind_lift_Inr io_bind_lift_Inl io_bind_Inr io_bind_Inl io_bind_do
  fst_io_lift snd_io_lift fst_io_throw snd_io_throw fst_io_do snd_io_do

lemma sends_getVideoInfo: "sends (fst (getVideoInfo rt bvid)) = []"
  by (simp add: getVideoInfo_def io_simps fetchJson_def sends_append split: sum.splits)

lemma sends_getSubtitleList: "sends (fst (getSubtitleList rt aid cid)) = []"
  by (simp add: getSubtitleList_def io_simps fetchJson_def sends_append
      split: sum.splits jsval.splits)

lemma sends_downloadSubtitle: "sends (fst (downloadSubtitle rt info)) = []"
  by (simp add: downloadSubtitle_def io_simps fetchJson_def sends_append
      split: sum.splits jsval.splits)

lemma sends_sendResponse: "sends (sendResponse w r) = (if wsOpen w then [r] else [])"
  by (simp add: sendResponse_def)

lemma fetches_sendResponse: "fetches (sendResponse w r) = []"
  by (simp add: sendResponse_def)

lemma credentialed_getVideoInfo: "(u, c) \<in> set (fetches (fst (getVideoInfo rt bvid))) \<Longrightarrow> c"
  by (auto simp: getVideoInfo_def io_simps fetchJson_def fetches_append
      split: sum.splits if_splits)

lemma credentialed_getSubtitleList:
  "(u, c) \<in> set (fetches (fst (getSubtitleList rt aid cid))) \<Longrightarrow> c"
  by (auto simp: getSubtitleList_def io_simps fetchJson_def fetches_append
      split: sum.splits jsval.splits if_splits)

lemma tryBlock_thrown_silent:
  "snd (tryBlock rt w request) = Inl e \<Longrightarrow> sends (fst (tryBlock rt w request)) = []"
  by (simp add: tryBlock_def io_simps sends_append sends_getVideoInfo sends_getSubtitleList
      sends_downloadSubtitle split: sum.splits list.splits)

lemma tryBlock_sends:
  "sends (fst (tryBlock rt w request)) = [] \<or>
   (\<exists>rid ttl owner videoUrl ct body.
      getProp request ''requestId'' = Inr rid \<and>
      sends (fst (tryBlock rt w request)) = [successResponse rid ttl owner videoUrl ct body])"
  by (simp add: tryBlock_def io_simps sends_append sends_getVideoInfo sends_getSubtitleList
      sends_downloadSubtitle sends_sendResponse split: sum.splits list.splits) blast

lemma handleSubtitleRequest_sends:
  "sends (handleSubtitleRequest rt w request) = [] \<or>
   (\<exists>rid. getProp request ''requestId'' = Inr rid \<and>
      ((\<exists>rendered. sends (handleSubtitleRequest rt w request) = [errorResponse rid rendered]) \<or>
       (\<exists>ttl owner videoUrl ct body. sends (handleSubtitleRequest rt w request) =
          [successResponse rid ttl owner videoUrl ct body])))"
proof (cases "getProp request ''videoUrl''")
  case (Inl t)
  then show ?thesis by (simp add: handleSubtitleRequest_def)
next
  case (Inr logUrl)
  obtain es r where tb: "tryBlock rt w request = (es, r)" by (cases "tryBlock rt w request")
  show ?thesis
  proof (cases r)
    case (Inl e)
    with tb have "sends es = []" using tryBlock_thrown_silent[of rt w request e] by simp
    with tb Inl Inr show ?thesis
      by (auto simp: handleSubtitleRequest_def sends_append sends_sendResponse
          split: sum.splits)
  next
    case (Inr u)
    with tb \<open>getProp request ''videoUrl'' = Inr logUrl\<close>
    have eq: "sends (handleSubtitleRequest rt w request) = sends (fst (tryBlock rt w request))"
      by (simp add: handleSubtitleRequest_def)
    show ?thesis unfolding eq using tryBlock_sends[of rt w request] by blast
  qed
qed

lemma handleMessage_sends:
  "sends (handleMessage rt w raw) = [] \<or>
   (\<exists>request. JSON_parse rt raw = Inr request \<and>
      getProp request ''type'' = Inr (JStr ''GET_SUBTITLE'') \<and>
      handleMessage rt w raw = Log msg_recv # handleSubtitleRequest rt w request)"
  by (simp add: handleMessage_def split: sum.splits)

section \<open>Traces of the request handler\<close>

lemma getProp_total: "getProp v p = Inr x \<Longrightarrow> \<exists>y. getProp v q = Inr y"
  by (cases v) simp_all

lemma errorToString_Error: "m \<noteq> [] \<Longrightarrow> errorToString ''Error'' m = ''Error: '' @ m"
  by (simp add: errorToString_def)

lemma err_no_subtitle_nonempty: "err_no_subtitle \<noteq> []"
  by (simp add: err_no_subtitle_def)

lemma err_no_bvid_nonempty: "err_no_bvid \<noteq> []"
  by (simp add: err_no_bvid_def)

lemma err_info_prefix_nonempty: "err_info_prefix @ s \<noteq> []"
  by (simp add: err_info_prefix_def)

lemma err_list_prefix_nonempty: "err_list_prefix @ s \<noteq> []"
  by (simp add: err_list_prefix_def)

lemma handleSubtitleRequest_thrown:
  assumes "tryBlock rt w request = (es, Inl e)"
    and "getProp request ''requestId'' = Inr rid"
  shows "handleSubtitleRequest rt w request =
           Log msg_begin # es @ Log msg_failed #
           sendResponse w (errorResponse rid (String_thrown rt e))"
proof -
  from assms(2) obtain v where "getProp request ''videoUrl'' = Inr v"
    using getProp_total by blast
  with assms show ?thesis by (simp add: handleSubtitleRequest_def)
qed

lemma tryBlock_no_match:
  assumes "getProp request ''videoUrl'' = Inr (JStr u)" and "bvMatch u = None"
  shows "tryBlock rt w request = ([], Inl (Error err_no_bvid))"
  using assms by (simp add: tryBlock_def extractBVID_def io_run)

lemma tryBlock_empty_list:
  assumes "getProp request ''videoUrl'' = Inr videoUrl"
    and "extractBVID videoUrl = Inr bvid"
    and "getVideoInfo rt bvid = (es1, Inr videoInfo)"
    and "getProp videoInfo ''pages'' = Inr pages"
    and "getIndex0 pages = Inr pageInfo"
    and "getProp videoInfo ''aid'' = Inr aid"
    and "getProp pageInfo ''cid'' = Inr cid"
    and "getSubtitleList rt aid cid = (es2, Inr [])"
  shows "tryBlock rt w request =
           (Log msg_bvid_ok # es1 @ Log msg_info_ok # es2, Inl (Error err_no_subtitle))"
proof -
  from assms(4) obtain ttl where "getProp videoInfo ''title'' = Inr ttl"
    using getProp_total by blast
  with assms show ?thesis by (simp add: tryBlock_def io_run)
qed

lemma handleSubtitleRequest_success:
  assumes "getProp request ''videoUrl'' = Inr videoUrl"
    and "getProp request ''requestId'' = Inr rid"
    and "extractBVID videoUrl = Inr bvid"
    and "getVideoInfo rt bvid = (es1, Inr videoInfo)"
    and "getProp videoInfo ''title'' = Inr ttl"
    and "getProp videoInfo ''owner'' = Inr owner"
    and "getProp videoInfo ''ctime'' = Inr ct"
    and "getProp videoInfo ''pages'' = Inr pages"
    and "getIndex0 pages = Inr pageInfo"
    and "getProp videoInfo ''aid'' = Inr aid"
    and "getProp pageInfo ''cid'' = Inr cid"
    and "getSubtitleList rt aid cid = (es2, Inr (first # others))"
    and "downloadSubtitle rt first = (es3, Inr subtitleData)"
    and "getProp subtitleData ''body'' = Inr body"
  shows "handleSubtitleRequest rt w request =
           Log msg_begin # Log msg_bvid_ok # es1 @ Log msg_info_ok # es2 @ Log msg_list_ok #
           es3 @ Log msg_download_ok #
           sendResponse w (successResponse rid ttl owner videoUrl ct body) @ [Log msg_sent_ok]"
  using assms by (simp add: handleSubtitleRequest_def tryBlock_def io_run)

lemma tryBlock_info_failure:
  assumes "getProp request ''videoUrl'' = Inr videoUrl"
    and "extractBVID videoUrl = Inr bvid"
    and "snd (getVideoInfo rt bvid) = Inl t"
  shows "snd (tryBlock rt w request) = Inl t"
  using assms by (simp add: tryBlock_def io_simps)

lemma tryBlock_list_failure:
  assumes "getProp request ''videoUrl'' = Inr videoUrl"
    and "extractBVID videoUrl = Inr bvid"
    and "snd (getVideoInfo rt bvid) = Inr videoInfo"
    and "getProp videoInfo ''pages'' = Inr pages"
    and "getIndex0 pages = Inr pageInfo"
    and "getProp videoInfo ''aid'' = Inr aid"
    and "getProp pageInfo ''cid'' = Inr cid"
    and "snd (getSubtitleList rt aid cid) = Inl t"
  shows "snd (tryBlock rt w request) = Inl t"
proof -
  from assms(4) obtain ttl where "getProp videoInfo ''title'' = Inr ttl"
    using getProp_total by blast
  with assms show ?thesis by (simp add: tryBlock_def io_simps)
qed

lemma getVideoInfo_api_failure:
  assumes "fetch_json rt (''https://api.bilibili.com/x/web-interface/view?bvid='' @ bvid) True
             = Inr result"
    and "getProp result ''code'' = Inr code"
    and "code \<noteq> JNum 0"
    and "getProp result ''message'' = Inr m"
    and "ToString rt m = Inr s"
  shows "snd (getVideoInfo rt bvid) = Inl (Error (err_info_prefix @ s))"
  using assms by (simp add: getVideoInfo_def fetchJson_def io_simps)

lemma getSubtitleList_api_failure:
  assumes "ToString rt aid = Inr a"
    and "ToString rt cid = Inr c"
    and "fetch_json rt (''https://api.bilibili.com/x/player/wbi/v2?aid='' @ a @ ''&cid='' @ c)
           True = Inr result"
    and "getProp result ''code'' = Inr code"
    and "code \<noteq> JNum 0"
    and "getProp result ''message'' = Inr m"
    and "ToString rt m = Inr s"
  shows "snd (getSubtitleList rt aid cid) = Inl (Error (err_list_prefix @ s))"
  using assms by (simp add: getSubtitleList_def fetchJson_def io_simps)

section \<open>The scenarios on the sample runtime\<close>

lemma demo_extractBVID:
  "extractBVID (JStr ''https://www.bilibili.com/video/BV1xx411c7mD'') = Inr ''BV1xx411c7mD''"
  by (simp add: extractBVID_def match_here_def word_char_def)

lemma demo_no_match: "bvMatch ''https://www.bilibili.com/'' = None"
  by (simp add: match_here_def)

lemma demo_getVideoInfo:
  "getVideoInfo (demoRuntime owner tracks) ''BV1xx411c7mD'' =
     ([Fetch ''https://api.bilibili.com/x/web-interface/view?bvid=BV1xx411c7mD'' True],
      Inr (demoVideoInfo owner))"
  by (simp add: getVideoInfo_def demoRuntime_def demoFetch_def fetchJson_def io_run)

lemma demo_getSubtitleList:
  "getSubtitleList (demoRuntime owner tracks) (JNum 7) (JNum 55) =
     ([Fetch ''https://api.bilibili.com/x/player/wbi/v2?aid=7&cid=55'' True],
      filterTracks tracks)"
  by (simp add: getSubtitleList_def demoRuntime_def demoFetch_def demoToString_def
      fetchJson_def io_run io_lift_def)

lemma demo_downloadSubtitle:
  "downloadSubtitle (demoRuntime owner tracks) demoTrack =
     ([Fetch ''https://i0.hdslb.com/bfs/subtitle/a.json'' False],
      Inr (JObj [(''body'', JArr [demoLine])]))"
  by (simp add: downloadSubtitle_def demoTrack_def secureUrl_eq startsWith_def
      demoRuntime_def demoFetch_def fetchJson_def io_run)

lemma demo_filterTracks: "filterTracks [demoTrack] = Inr [demoTrack]"
  by (simp add: demoTrack_def)

lemma wsOpen_openWorld: "wsOpen openWorld"
  by (simp add: openWorld_def start_def connect_def wsOpen_def onopen_def timerSet_def)

lemma not_wsOpen_start: "\<not> wsOpen (start False)"
  by (simp add: start_def connect_def wsOpen_def)

lemma demoRequest_props:
  "getProp (demoRequest u) ''videoUrl'' = Inr (JStr u)"
  "getProp (demoRequest u) ''requestId'' = Inr (JStr ''r1'')"
  "getProp (demoRequest u) ''type'' = Inr (JStr ''GET_SUBTITLE'')"
  by (simp_all add: demoRequest_def)

lemma demoVideoInfo_props:
  "getProp (demoVideoInfo owner) ''title'' = Inr (JStr ''T'')"
  "getProp (demoVideoInfo owner) ''owner'' = Inr owner"
  "getProp (demoVideoInfo owner) ''ctime'' = Inr (JNum 1000)"
  "getProp (demoVideoInfo owner) ''aid'' = Inr (JNum 7)"
  "getProp (demoVideoInfo owner) ''pages'' = Inr (JArr [JObj [(''cid'', JNum 55)]])"
  by (simp_all add: demoVideoInfo_def)

lemma demo_page:
  "getIndex0 (JArr [JObj [(''cid'', JNum 55)]]) = Inr (JObj [(''cid'', JNum 55)])"
  "getProp (JObj [(''cid'', JNum 55)]) ''cid'' = Inr (JNum 55)"
  by simp_all

lemma demo_extractBVID': "extractBVID (JStr demoUrl) = Inr ''BV1xx411c7mD''"
  unfolding demoUrl_def by (rule demo_extractBVID)

lemma demo_empty_list:
  "getSubtitleList (demoRuntime owner []) (JNum 7) (JNum 55) =
     ([Fetch ''https://api.bilibili.com/x/player/wbi/v2?aid=7&cid=55'' True], Inr [])"
  by (simp add: demo_getSubtitleList)

lemma demo_one_track:
  "getSubtitleList (demoRuntime owner [demoTrack]) (JNum 7) (JNum 55) =
     ([Fetch ''https://api.bilibili.com/x/player/wbi/v2?aid=7&cid=55'' True],
      Inr (demoTrack # []))"
  by (simp only: demo_getSubtitleList demo_filterTracks)

lemma demo_body:
  "getProp (JObj [(''body'', JArr [demoLine])]) ''body'' = Inr (JArr [demoLine])"
  by simp

lemma demo_run_empty:
  "handleSubtitleRequest (demoRuntime owner []) w (demoRequest demoUrl) =
     Log msg_begin #
     (Log msg_bvid_ok #
      [Fetch ''https://api.bilibili.com/x/web-interface/view?bvid=BV1xx411c7mD'' True] @
      Log msg_info_ok #
      [Fetch ''https://api.bilibili.com/x/player/wbi/v2?aid=7&cid=55'' True]) @
     Log msg_failed #
     sendResponse w
       (errorResponse (JStr ''r1'') (String_thrown (demoRuntime owner []) (Error err_no_subtitle)))"
  by (rule handleSubtitleRequest_thrown
        [OF tryBlock_empty_list
              [OF demoRequest_props(1) demo_extractBVID' demo_getVideoInfo
                  demoVideoInfo_props(5) demo_page(1) demoVideoInfo_props(4) demo_page(2)
                  demo_empty_list]
            demoRequest_props(2)])

lemma demo_run_success:
  "handleSubtitleRequest (demoRuntime owner [demoTrack]) w (demoRequest demoUrl) =
     Log msg_begin # Log msg_bvid_ok #
     [Fetch ''https://api.bilibili.com/x/web-interface/view?bvid=BV1xx411c7mD'' True] @
     Log msg_info_ok #
     [Fetch ''https://api.bilibili.com/x/player/wbi/v2?aid=7&cid=55'' True] @
     Log msg_list_ok #
     [Fetch ''https://i0.hdslb.com/bfs/subtitle/a.json'' False] @
     Log msg_download_ok #
     sendResponse w
       (successResponse (JStr ''r1'') (JStr ''T'') owner (JStr demoUrl) (JNum 1000)
          (JArr [demoLine])) @
     [Log msg_sent_ok]"
  by (rule handleSubtitleRequest_success
        [OF demoRequest_props(1) demoRequest_props(2) demo_extractBVID' demo_getVideoInfo
            demoVideoInfo_props(1) demoVideoInfo_props(2) demoVideoInfo_props(3)
            demoVideoInfo_props(5) demo_page(1) demoVideoInfo_props(4) demo_page(2)
            demo_one_track demo_downloadSubtitle demo_body])

section \<open>The pattern of extractBVID\<close>

text \<open>
  \<open>bvMatch\<close> finds nothing exactly when the text has no occurrence of \<^verbatim>\<open>/video/BV\<close>
  followed by a word character, which is what the regular expression asks for.
\<close>

lemma match_here_Some:
  "match_here s = Some g \<Longrightarrow> \<exists>c post. s = ''/video/BV'' @ c # post \<and> word_char c"
proof -
  assume a: "match_here s = Some g"
  then have t: "take 9 s = ''/video/BV''" and w: "takeWhile word_char (drop 9 s) \<noteq> []"
    by (auto simp: match_here_def Let_def split: if_splits)
  from w obtain c post where d: "drop 9 s = c # post" and "word_char c"
    by (cases "drop 9 s") (auto split: if_splits)
  have "s = take 9 s @ drop 9 s" by simp
  with t d \<open>word_char c\<close> show ?thesis by metis
qed

lemma match_here_None:
  "match_here (''/video/BV'' @ c # post) = None \<Longrightarrow> \<not> word_char c"
  by (auto simp: match_here_def Let_def split: if_splits)

lemma bvMatch_None_iff:
  "bvMatch u = None \<longleftrightarrow> \<not> (\<exists>pre c post. u = pre @ ''/video/BV'' @ c # post \<and> word_char c)"
proof (induction u)
  case Nil
  then show ?case by simp
next
  case (Cons a u)
  show ?case
  proof (cases "match_here (a # u)")
    case (Some g)
    then obtain c post where "a # u = [] @ ''/video/BV'' @ c # post \<and> word_char c"
      using match_here_Some by fastforce
    then have "\<exists>pre c post. a # u = pre @ ''/video/BV'' @ c # post \<and> word_char c" by blast
    with Some show ?thesis by simp
  next
    case None
    have "(\<exists>pre c post. a # u = pre @ ''/video/BV'' @ c # post \<and> word_char c) \<longleftrightarrow>
          (\<exists>pre c post. u = pre @ ''/video/BV'' @ c # post \<and> word_char c)" (is "?L \<longleftrightarrow> ?R")
    proof
      assume ?L
      then obtain pre c post where e: "a # u = pre @ ''/video/BV'' @ c # post" and wc: "word_char c"
        by blast
      show ?R
      proof (cases pre)
        case Nil
        with e None wc show ?thesis using match_here_None[of c post] by simp
      next
        case (Cons b pre')
        with e have "u = pre' @ ''/video/BV'' @ c # post" by simp
        with wc show ?thesis by blast
      qed
    next
      assume ?R
      then obtain pre c post where "u = pre @ ''/video/BV'' @ c # post" and wc: "word_char c"
        by blast
      then have "a # u = (a # pre) @ ''/video/BV'' @ c # post" by simp
      with wc show ?L by blast
    qed
    with None Cons.IH show ?thesis by simp
  qed
qed

section \<open>Correlation and shape of the responses\<close>

text \<open>
  Claim C1. For a request whose identifier is \<open>R\<close>, \<^verbatim>\<open>handleSubtitleRequest\<close> transmits at
  most one response, whatever the runtime answers and whatever the state of the
  connection, and a response it transmits has \<open>R\<close> as its \<^verbatim>\<open>requestId\<close>; this covers the
  success branch and the error branch. For a message that decodes to a request with the
  tag \<^verbatim>\<open>GET_SUBTITLE\<close>, these are all the responses \<^verbatim>\<open>handleMessage\<close> transmits.
\<close>

theorem handleSubtitleRequest_correlation:
  assumes "getProp request ''requestId'' = Inr R"
  shows "length (sends (handleSubtitleRequest rt w request)) \<le> 1
         \<and> (\<forall>r \<in> set (sends (handleSubtitleRequest rt w request)). requestId r = R)
         \<and> (JSON_parse rt raw = Inr request \<and>
              getProp request ''type'' = Inr (JStr ''GET_SUBTITLE'') \<longrightarrow>
            sends (handleMessage rt w raw) = sends (handleSubtitleRequest rt w request))"
proof -
  have "sends (handleSubtitleRequest rt w request) = [] \<or>
        (\<exists>r. sends (handleSubtitleRequest rt w request) = [r] \<and> requestId r = R)"
    using handleSubtitleRequest_sends[of rt w request] assms
    by (auto simp: errorResponse_def successResponse_def)
  then show ?thesis by (auto simp: handleMessage_def)
qed

theorem handleSubtitleRequest_correlation_witness:
  "getProp (demoRequest ''https://www.bilibili.com/'') ''requestId'' = Inr (JStr ''r1'')
   \<and> JSON_parse (demoRuntime JNull []) rawRequestC =
       Inr (demoRequest ''https://www.bilibili.com/'')
   \<and> getProp (demoRequest ''https://www.bilibili.com/'') ''type'' = Inr (JStr ''GET_SUBTITLE'')
   \<and> map requestId (sends (handleMessage (demoRuntime JNull []) openWorld rawRequestC)) =
       [JStr ''r1'']"
proof -
  let ?q = "demoRequest ''https://www.bilibili.com/''"
  let ?rt = "demoRuntime JNull []"
  have rid: "getProp ?q ''requestId'' = Inr (JStr ''r1'')"
    and url: "getProp ?q ''videoUrl'' = Inr (JStr ''https://www.bilibili.com/'')"
    and tag: "getProp ?q ''type'' = Inr (JStr ''GET_SUBTITLE'')"
    by (simp_all add: demoRequest_def)
  have parse: "JSON_parse ?rt rawRequestC = Inr ?q"
    by (simp add: demoRuntime_def demoParse_def rawRequestC_def rawRequestA_def)
  have "handleSubtitleRequest ?rt openWorld ?q =
          Log msg_begin # [] @ Log msg_failed #
          sendResponse openWorld (errorResponse (JStr ''r1'')
            (String_thrown ?rt (Error err_no_bvid)))"
    using tryBlock_no_match[OF url demo_no_match] rid by (rule handleSubtitleRequest_thrown)
  then have one: "length (sends (handleSubtitleRequest ?rt openWorld ?q)) = 1"
    by (simp add: sends_sendResponse wsOpen_openWorld)
  from handleSubtitleRequest_correlation[where rt = ?rt and w = openWorld and raw = rawRequestC,
      OF rid] parse tag
  have "\<forall>r \<in> set (sends (handleSubtitleRequest ?rt openWorld ?q)). requestId r = JStr ''r1''"
    and "sends (handleMessage ?rt openWorld rawRequestC) = sends (handleSubtitleRequest ?rt openWorld ?q)"
    by simp_all
  with one have "map requestId (sends (handleMessage ?rt openWorld rawRequestC)) = [JStr ''r1'']"
    by (cases "sends (handleSubtitleRequest ?rt openWorld ?q)") simp_all
  with rid parse tag show ?thesis by simp
qed

text \<open>
  Claim C2. Every response the pipeline transmits carries exactly one of \<^verbatim>\<open>data\<close> and
  \<^verbatim>\<open>error\<close>. The two object literals of \<^verbatim>\<open>handleSubtitleRequest\<close> are the only places where
  a response is built: the first has \<^verbatim>\<open>data\<close> and no \<^verbatim>\<open>error\<close>, the second \<^verbatim>\<open>error\<close> and no
  \<^verbatim>\<open>data\<close>.
\<close>

theorem response_exclusive:
  "(\<forall>r \<in> set (sends (handleMessage rt w raw)). (data r = None) \<noteq> (error r = None))
   \<and> (\<forall>r \<in> set (sends (handleSubtitleRequest rt w request)).
        (data r = None) \<noteq> (error r = None))
   \<and> data (successResponse rid ttl owner videoUrl ct body) \<noteq> None
   \<and> error (successResponse rid ttl owner videoUrl ct body) = None
   \<and> data (errorResponse rid rendered) = None
   \<and> error (errorResponse rid rendered) \<noteq> None"
proof -
  have a: "\<forall>r \<in> set (sends (handleSubtitleRequest rt w q)). (data r = None) \<noteq> (error r = None)"
    for q
    using handleSubtitleRequest_sends[of rt w q]
    by (auto simp: errorResponse_def successResponse_def)
  have "\<forall>r \<in> set (sends (handleMessage rt w raw)). (data r = None) \<noteq> (error r = None)"
    using handleMessage_sends[of rt w raw] a by auto
  with a show ?thesis by (simp add: errorResponse_def successResponse_def)
qed

theorem response_exclusive_witness:
  "map data (sends (handleSubtitleRequest (demoRuntime JNull []) openWorld
      (demoRequest ''https://www.bilibili.com/''))) = [None]
   \<and> map error (sends (handleSubtitleRequest (demoRuntime JNull []) openWorld
      (demoRequest ''https://www.bilibili.com/''))) \<noteq> [None]"
proof -
  let ?q = "demoRequest ''https://www.bilibili.com/''"
  let ?rt = "demoRuntime JNull []"
  have rid: "getProp ?q ''requestId'' = Inr (JStr ''r1'')"
    and url: "getProp ?q ''videoUrl'' = Inr (JStr ''https://www.bilibili.com/'')"
    by (simp_all add: demoRequest_def)
  have "handleSubtitleRequest ?rt openWorld ?q =
          Log msg_begin # [] @ Log msg_failed #
          sendResponse openWorld (errorResponse (JStr ''r1'')
            (String_thrown ?rt (Error err_no_bvid)))"
    using tryBlock_no_match[OF url demo_no_match] rid by (rule handleSubtitleRequest_thrown)
  then have s: "sends (handleSubtitleRequest ?rt openWorld ?q) =
      [errorResponse (JStr ''r1'') (String_thrown ?rt (Error err_no_bvid))]"
    by (simp add: sends_sendResponse wsOpen_openWorld)
  then have d: "map data (sends (handleSubtitleRequest ?rt openWorld ?q)) = [None]"
    by (simp add: errorResponse_def)
  from response_exclusive[of ?rt openWorld rawRequestC ?q] s
  have "error (errorResponse (JStr ''r1'') (String_thrown ?rt (Error err_no_bvid))) \<noteq> None"
    using d by auto
  with s d show ?thesis by simp
qed

section \<open>Messages that are dropped\<close>

text \<open>
  Claim C3. When the raw text is not valid JSON, \<^verbatim>\<open>handleMessage\<close> writes one log line and
  does nothing else. When the text decodes to a message whose \<^verbatim>\<open>type\<close> is not the string
  \<^verbatim>\<open>GET_SUBTITLE\<close> (a value without that property and \<^verbatim>\<open>null\<close>, whose property cannot be
  read, included), it writes two log lines, transmits no response and fetches nothing.
\<close>

theorem handleMessage_silent_drop:
  "(JSON_parse rt raw = Inl e \<longrightarrow> handleMessage rt w raw = [Log msg_parse_failed])
   \<and> (JSON_parse rt raw = Inr message \<and> getProp message ''type'' \<noteq> Inr (JStr ''GET_SUBTITLE'')
        \<longrightarrow> sends (handleMessage rt w raw) = [] \<and> fetches (handleMessage rt w raw) = []
            \<and> (handleMessage rt w raw = [Log msg_recv, Log msg_unknown_type] \<or>
               handleMessage rt w raw = [Log msg_recv, Log msg_parse_failed]))"
  by (auto simp: handleMessage_def split: sum.splits)

theorem handleMessage_silent_drop_witness:
  "handleMessage (demoRuntime JNull []) openWorld ''{'' = [Log msg_parse_failed]
   \<and> sends (handleMessage (demoRuntime JNull []) openWorld rawPing) = []
   \<and> sends (handleMessage (demoRuntime JNull []) openWorld ''null'') = []"
proof -
  let ?rt = "demoRuntime JNull []"
  have a: "JSON_parse ?rt ''{'' = Inl (Foreign ''SyntaxError: Unexpected token'')"
    and b: "JSON_parse ?rt rawPing = Inr (JObj [(''type'', JStr ''PING'')])"
    and c: "JSON_parse ?rt ''null'' = Inr JNull"
    by (simp_all add: demoRuntime_def demoParse_def rawRequestC_def rawRequestA_def
        rawPing_def)
  have b': "getProp (JObj [(''type'', JStr ''PING'')]) ''type'' \<noteq> Inr (JStr ''GET_SUBTITLE'')"
    and c': "getProp JNull ''type'' \<noteq> Inr (JStr ''GET_SUBTITLE'')"
    by simp_all
  from handleMessage_silent_drop[of ?rt "''{''" "Foreign ''SyntaxError: Unexpected token''"
      openWorld] a
  have "handleMessage ?rt openWorld ''{'' = [Log msg_parse_failed]" by blast
  moreover from handleMessage_silent_drop[of ?rt rawPing _ openWorld
      "JObj [(''type'', JStr ''PING'')]"] b b'
  have "sends (handleMessage ?rt openWorld rawPing) = []" by blast
  moreover from handleMessage_silent_drop[of ?rt "''null''" _ openWorld JNull] c c'
  have "sends (handleMessage ?rt openWorld ''null'') = []" by blast
  ultimately show ?thesis by simp
qed

section \<open>The reconnection timer\<close>

lemma timerInv_scheduleReconnect: "timerInv w \<Longrightarrow> timerInv (scheduleReconnect w)"
  by (auto simp: timerInv_def scheduleReconnect_def timerSet_def Let_def split: option.splits)

lemma timerInv_isConnecting: "timerInv (w\<lparr>isConnecting := b\<rparr>) = timerInv w"
  by (simp add: timerInv_def split: option.splits)

lemma timerInv_readyStateOf: "timerInv (w\<lparr>readyStateOf := f\<rparr>) = timerInv w"
  by (simp add: timerInv_def split: option.splits)

lemma timerInv_connect: "timerInv w \<Longrightarrow> timerInv (connect throws w)"
  using timerInv_scheduleReconnect[of "w\<lparr>isConnecting := False\<rparr>"]
  by (auto simp: connect_def timerInv_isConnecting) (simp add: timerInv_def split: option.splits)

lemma timerInv_onopen: "timerInv w \<Longrightarrow> timerInv (onopen w)"
  by (auto simp: timerInv_def onopen_def timerSet_def Let_def split: option.splits)

lemma timerInv_onclose: "timerInv w \<Longrightarrow> timerInv (onclose w)"
  by (simp add: onclose_def timerInv_scheduleReconnect timerInv_isConnecting)

lemma timerInv_onerror: "timerInv w \<Longrightarrow> timerInv (onerror w)"
  by (simp add: onerror_def timerInv_scheduleReconnect timerInv_isConnecting)

lemma timerInv_fired:
  "timerInv w \<Longrightarrow> t \<in> set (timers w) \<Longrightarrow>
   w\<lparr>timers := removeAll t (timers w), reconnectTimer := None\<rparr> = w\<lparr>timers := [], reconnectTimer := None\<rparr>
   \<and> timerInv (w\<lparr>timers := [], reconnectTimer := None\<rparr>)"
  by (auto simp: timerInv_def split: option.splits)

lemma step_TimerFire:
  "timerInv w \<Longrightarrow> t \<in> set (timers w) \<Longrightarrow>
   step w (TimerFire t throws) = connect throws (w\<lparr>timers := [], reconnectTimer := None\<rparr>)"
  using timerInv_fired[of w t] by (simp add: onTimeout_def)

lemma timerInv_step: "timerInv w \<Longrightarrow> timerInv (step w ev)"
proof (cases ev)
  case (SocketOpen h)
  assume "timerInv w"
  then show ?thesis using SocketOpen by (simp add: timerInv_onopen timerInv_readyStateOf)
next
  case (SocketClose h)
  assume "timerInv w"
  then show ?thesis using SocketClose by (simp add: timerInv_onclose timerInv_readyStateOf)
next
  case (SocketError h)
  assume "timerInv w"
  then show ?thesis using SocketError by (simp add: timerInv_onerror)
next
  case (TimerFire t throws)
  assume inv: "timerInv w"
  show ?thesis
  proof (cases "t \<in> set (timers w)")
    case True
    with inv have "timerInv (w\<lparr>timers := [], reconnectTimer := None\<rparr>)"
      using timerInv_fired by blast
    then have "timerInv (connect throws (w\<lparr>timers := [], reconnectTimer := None\<rparr>))"
      by (rule timerInv_connect)
    with inv True show ?thesis unfolding TimerFire by (simp only: step_TimerFire)
  next
    case False
    with inv show ?thesis unfolding TimerFire by simp
  qed
qed

lemma timerInv_foldl: "timerInv w \<Longrightarrow> timerInv (foldl step w evs)"
  by (induction evs arbitrary: w) (simp_all add: timerInv_step)

lemma timerInv_start: "timerInv (start throws)"
proof -
  have "timerInv \<lparr>ws = None, reconnectTimer = None, isConnecting = False,
        readyStateOf = (\<lambda>h. CLOSED), sockets = 0, timers = [], lastTimer = 0\<rparr>"
    by (simp add: timerInv_def)
  then show ?thesis unfolding start_def by (rule timerInv_connect)
qed

lemma timerInv_run: "timerInv (run throws evs)"
  unfolding run_def using timerInv_start by (rule timerInv_foldl)

lemma timerInv_pending:
  "timerInv w \<Longrightarrow> timers w \<noteq> [] \<Longrightarrow> scheduleReconnect w = w"
  by (auto simp: timerInv_def scheduleReconnect_def timerSet_def split: option.splits)

text \<open>
  Claim C4. After the construction of the service and any sequence of socket events and
  timer firings (with or without \<^verbatim>\<open>new WebSocket\<close> raising), at most one reconnection
  timeout is pending. While one is pending \<^verbatim>\<open>scheduleReconnect\<close> changes nothing, and a
  firing timeout runs \<^verbatim>\<open>connect\<close> on a service whose timer handle is cleared and that has
  no timeout pending.
\<close>

theorem reconnect_singularity:
  "length (timers (run throws evs)) \<le> 1
   \<and> (timers (run throws evs) \<noteq> [] \<longrightarrow>
        scheduleReconnect (run throws evs) = run throws evs)
   \<and> (t \<in> set (timers (run throws evs)) \<longrightarrow>
        step (run throws evs) (TimerFire t again) =
          connect again ((run throws evs)\<lparr>timers := [], reconnectTimer := None\<rparr>))"
proof -
  have inv: "timerInv (run throws evs)" by (rule timerInv_run)
  then have "length (timers (run throws evs)) \<le> 1"
    by (auto simp: timerInv_def split: option.splits)
  with inv show ?thesis
    using timerInv_pending step_TimerFire by blast
qed

theorem reconnect_singularity_witness:
  "timers (run False [SocketError 0, SocketClose 0]) = [1]
   \<and> scheduleReconnect (run False [SocketError 0, SocketClose 0]) =
       run False [SocketError 0, SocketClose 0]
   \<and> timers (step (run False [SocketError 0, SocketClose 0]) (TimerFire 1 True)) = [2]"
  using reconnect_singularity[of False "[SocketError 0, SocketClose 0]" 1 True]
  by (simp add: run_def start_def connect_def wsOpen_def onerror_def onclose_def
      scheduleReconnect_def timerSet_def)

section \<open>Failures of the pipeline\<close>

text \<open>
  Claim C7. When the \<^verbatim>\<open>videoUrl\<close> of a request is a string that the pattern of
  \<^verbatim>\<open>extractBVID\<close> does not match, the handler logs its start and the failure, hands one
  error response with the request's identifier and the text of the extraction error to
  \<^verbatim>\<open>sendResponse\<close>, and does nothing else: it fetches neither metadata nor caption list
  nor caption document. On an open connection that response is the one transmitted.
\<close>

theorem unparseable_url_short_circuit:
  assumes "getProp request ''videoUrl'' = Inr (JStr u)"
    and "bvMatch u = None"
    and "getProp request ''requestId'' = Inr rid"
  shows "handleSubtitleRequest rt w request =
           Log msg_begin # Log msg_failed #
           sendResponse w (errorResponse rid (''Error: '' @ err_no_bvid))
         \<and> fetches (handleSubtitleRequest rt w request) = []
         \<and> (wsOpen w \<longrightarrow> sends (handleSubtitleRequest rt w request) =
               [\<lparr>type = ''SUBTITLE_RESULT'', requestId = rid, data = None,
                 error = Some (''Error: '' @ err_no_bvid)\<rparr>])"
proof -
  have "handleSubtitleRequest rt w request =
          Log msg_begin # [] @ Log msg_failed #
          sendResponse w (errorResponse rid (String_thrown rt (Error err_no_bvid)))"
    using tryBlock_no_match[OF assms(1,2)] assms(3) by (rule handleSubtitleRequest_thrown)
  then have "handleSubtitleRequest rt w request =
          Log msg_begin # Log msg_failed #
          sendResponse w (errorResponse rid (''Error: '' @ err_no_bvid))"
    by (simp add: errorToString_Error err_no_bvid_nonempty)
  then show ?thesis
    by (simp add: fetches_sendResponse sends_sendResponse errorResponse_def)
qed

theorem unparseable_url_short_circuit_witness:
  "bvMatch ''https://www.bilibili.com/'' = None
   \<and> fetches (handleSubtitleRequest (demoRuntime JNull []) openWorld
        (demoRequest ''https://www.bilibili.com/'')) = []
   \<and> sends (handleSubtitleRequest (demoRuntime JNull []) openWorld
        (demoRequest ''https://www.bilibili.com/'')) =
       [\<lparr>type = ''SUBTITLE_RESULT'', requestId = JStr ''r1'', data = None,
         error = Some (''Error: '' @ err_no_bvid)\<rparr>]"
proof -
  have "getProp (demoRequest ''https://www.bilibili.com/'') ''videoUrl'' =
          Inr (JStr ''https://www.bilibili.com/'')"
    and "getProp (demoRequest ''https://www.bilibili.com/'') ''requestId'' = Inr (JStr ''r1'')"
    by (simp_all add: demoRequest_def)
  from unparseable_url_short_circuit[OF this(1) demo_no_match this(2),
      of "demoRuntime JNull []" openWorld]
  have "fetches (handleSubtitleRequest (demoRuntime JNull []) openWorld
          (demoRequest ''https://www.bilibili.com/'')) = []"
    and "wsOpen openWorld \<longrightarrow>
         sends (handleSubtitleRequest (demoRuntime JNull []) openWorld
          (demoRequest ''https://www.bilibili.com/'')) =
         [\<lparr>type = ''SUBTITLE_RESULT'', requestId = JStr ''r1'', data = None,
           error = Some (''Error: '' @ err_no_bvid)\<rparr>]"
    by blast+
  with demo_no_match wsOpen_openWorld show ?thesis by blast
qed

text \<open>
  Claim C6, as the code has it. When the stages before it succeed and the caption-list
  stage yields an empty filtered list, the handler hands one error response to
  \<^verbatim>\<open>sendResponse\<close>: it echoes the request's identifier, and its \<^verbatim>\<open>error\<close> is the rendering of
  the thrown \<^verbatim>\<open>Error\<close> object, that is the message with \<^verbatim>\<open>Error: \<close> before it. The caption
  document is not fetched: the handler's fetches are those of the metadata and
  caption-list stages, all of them with credentials.
\<close>

theorem empty_caption_list_error:
  assumes "getProp request ''videoUrl'' = Inr videoUrl"
    and "getProp request ''requestId'' = Inr rid"
    and "extractBVID videoUrl = Inr bvid"
    and "getVideoInfo rt bvid = (es1, Inr videoInfo)"
    and "getProp videoInfo ''pages'' = Inr pages"
    and "getIndex0 pages = Inr pageInfo"
    and "getProp videoInfo ''aid'' = Inr aid"
    and "getProp pageInfo ''cid'' = Inr cid"
    and "getSubtitleList rt aid cid = (es2, Inr [])"
  shows "handleSubtitleRequest rt w request =
           Log msg_begin # Log msg_bvid_ok # es1 @ Log msg_info_ok # es2 @ Log msg_failed #
           sendResponse w
             \<lparr>type = ''SUBTITLE_RESULT'', requestId = rid, data = None,
              error = Some (''Error: '' @ err_no_subtitle)\<rparr>
         \<and> fetches (handleSubtitleRequest rt w request) = fetches es1 @ fetches es2
         \<and> (\<forall>f \<in> set (fetches (handleSubtitleRequest rt w request)). snd f)"
proof -
  have "tryBlock rt w request =
          (Log msg_bvid_ok # es1 @ Log msg_info_ok # es2, Inl (Error err_no_subtitle))"
    using assms(1,3-9) by (rule tryBlock_empty_list)
  then have "handleSubtitleRequest rt w request =
          Log msg_begin # (Log msg_bvid_ok # es1 @ Log msg_info_ok # es2) @ Log msg_failed #
          sendResponse w (errorResponse rid (String_thrown rt (Error err_no_subtitle)))"
    using assms(2) by (rule handleSubtitleRequest_thrown)
  then have tr: "handleSubtitleRequest rt w request =
          Log msg_begin # Log msg_bvid_ok # es1 @ Log msg_info_ok # es2 @ Log msg_failed #
          sendResponse w
             \<lparr>type = ''SUBTITLE_RESULT'', requestId = rid, data = None,
              error = Some (''Error: '' @ err_no_subtitle)\<rparr>"
    by (simp add: errorToString_Error err_no_subtitle_nonempty errorResponse_def)
  then have fe: "fetches (handleSubtitleRequest rt w request) = fetches es1 @ fetches es2"
    by (simp add: fetches_append fetches_sendResponse)
  have "snd f" if "f \<in> set (fetches es1 @ fetches es2)" for f
  proof -
    obtain u c where f: "f = (u, c)" by (cases f)
    from assms(4) have "fst (getVideoInfo rt bvid) = es1" by simp
    moreover from assms(9) have "fst (getSubtitleList rt aid cid) = es2" by simp
    ultimately show ?thesis
      using that f credentialed_getVideoInfo[of u c rt bvid]
        credentialed_getSubtitleList[of u c rt aid cid] by auto
  qed
  with tr fe show ?thesis by simp
qed

text \<open>
  Scenario B of the specification on an open connection: the filtered caption list is
  empty, and the \<^verbatim>\<open>error\<close> of the response is not the bare message but the message with
  \<^verbatim>\<open>Error: \<close> before it.
\<close>

theorem empty_caption_list_error_counterexample:
  "getSubtitleList (demoRuntime JNull []) (JNum 7) (JNum 55) =
     ([Fetch ''https://api.bilibili.com/x/player/wbi/v2?aid=7&cid=55'' True], Inr [])
   \<and> map error (sends (handleSubtitleRequest (demoRuntime JNull []) openWorld
         (demoRequest demoUrl))) = [Some (''Error: '' @ err_no_subtitle)]
   \<and> map error (sends (handleSubtitleRequest (demoRuntime JNull []) openWorld
         (demoRequest demoUrl))) \<noteq> [Some err_no_subtitle]"
proof -
  have "map error (sends (handleSubtitleRequest (demoRuntime JNull []) openWorld
          (demoRequest demoUrl))) = [Some (''Error: '' @ err_no_subtitle)]"
    by (simp add: demo_run_empty sends_sendResponse wsOpen_openWorld errorResponse_def
        errorToString_Error err_no_subtitle_nonempty)
  then show ?thesis by (simp add: demo_empty_list)
qed

theorem empty_caption_list_error_witness:
  "handleSubtitleRequest (demoRuntime JNull []) openWorld (demoRequest demoUrl) =
     [Log msg_begin, Log msg_bvid_ok,
      Fetch ''https://api.bilibili.com/x/web-interface/view?bvid=BV1xx411c7mD'' True,
      Log msg_info_ok,
      Fetch ''https://api.bilibili.com/x/player/wbi/v2?aid=7&cid=55'' True,
      Log msg_failed,
      Send \<lparr>type = ''SUBTITLE_RESULT'', requestId = JStr ''r1'', data = None,
             error = Some (''Error: '' @ err_no_subtitle)\<rparr>]"
proof -
  have "handleSubtitleRequest (demoRuntime JNull []) openWorld (demoRequest demoUrl) =
          Log msg_begin # Log msg_bvid_ok #
          [Fetch ''https://api.bilibili.com/x/web-interface/view?bvid=BV1xx411c7mD'' True] @
          Log msg_info_ok #
          [Fetch ''https://api.bilibili.com/x/player/wbi/v2?aid=7&cid=55'' True] @
          Log msg_failed #
          sendResponse openWorld
            \<lparr>type = ''SUBTITLE_RESULT'', requestId = JStr ''r1'', data = None,
             error = Some (''Error: '' @ err_no_subtitle)\<rparr>"
    using empty_caption_list_error
      [where w = openWorld and rt = "demoRuntime JNull []",
        OF demoRequest_props(1) demoRequest_props(2) demo_extractBVID' demo_getVideoInfo
          demoVideoInfo_props(5) demo_page(1) demoVideoInfo_props(4) demo_page(2)
          demo_empty_list]
    by blast
  then show ?thesis by (simp add: sendResponse_def wsOpen_openWorld)
qed

section \<open>The success payload\<close>

text \<open>
  Claim C8 as stated fails where the owner's display name is present and empty: the
  metadata of the request below has the name \<^verbatim>\<open>""\<close>, and the author sent is the
  placeholder.
\<close>

theorem success_payload_counterexample:
  "spec_author (demoVideoInfo (JObj [(''name'', JStr [])])) = JStr []
   \<and> map authorOf (sends (handleSubtitleRequest
         (demoRuntime (JObj [(''name'', JStr [])]) [demoTrack]) openWorld
         (demoRequest demoUrl))) = [Some (JStr unknown_author)]
   \<and> map authorOf (sends (handleSubtitleRequest
         (demoRuntime (JObj [(''name'', JStr [])]) [demoTrack]) openWorld
         (demoRequest demoUrl))) \<noteq>
       [Some (spec_author (demoVideoInfo (JObj [(''name'', JStr [])])))]"
proof -
  have a: "spec_author (demoVideoInfo (JObj [(''name'', JStr [])])) = JStr []"
    by (simp add: spec_author_def demoVideoInfo_def optProp_def)
  have b: "map authorOf (sends (handleSubtitleRequest
         (demoRuntime (JObj [(''name'', JStr [])]) [demoTrack]) openWorld
         (demoRequest demoUrl))) = [Some (JStr unknown_author)]"
    by (simp add: demo_run_success sends_append sends_sendResponse wsOpen_openWorld
        successResponse_def authorOf_def js_or_def optProp_def)
  have "unknown_author \<noteq> []" by (simp add: unknown_author_def)
  with a b show ?thesis by simp
qed

text \<open>
  Claim C8, as the code has it. When every stage succeeds, the handler hands one success
  response to \<^verbatim>\<open>sendResponse\<close>. Its payload has the metadata's title and creation time and
  the URL of the request as they are. The author is the display name of the metadata's
  owner when that is truthy (a string that is not empty), and the placeholder otherwise:
  when the owner or the name is absent or \<^verbatim>\<open>null\<close>, and also when the name is empty. The
  subtitles are the \<^verbatim>\<open>body\<close> of the caption document when that is truthy (any list, the
  empty one too), and the empty list otherwise.
\<close>

theorem success_payload:
  assumes "getProp request ''videoUrl'' = Inr videoUrl"
    and "getProp request ''requestId'' = Inr rid"
    and "extractBVID videoUrl = Inr bvid"
    and "getVideoInfo rt bvid = (es1, Inr videoInfo)"
    and "getProp videoInfo ''title'' = Inr ttl"
    and "getProp videoInfo ''owner'' = Inr owner"
    and "getProp videoInfo ''ctime'' = Inr ct"
    and "getProp videoInfo ''pages'' = Inr pages"
    and "getIndex0 pages = Inr pageInfo"
    and "getProp videoInfo ''aid'' = Inr aid"
    and "getProp pageInfo ''cid'' = Inr cid"
    and "getSubtitleList rt aid cid = (es2, Inr (first # others))"
    and "downloadSubtitle rt first = (es3, Inr subtitleData)"
    and "getProp subtitleData ''body'' = Inr body"
  shows "handleSubtitleRequest rt w request =
           Log msg_begin # Log msg_bvid_ok # es1 @ Log msg_info_ok # es2 @ Log msg_list_ok #
           es3 @ Log msg_download_ok #
           sendResponse w
             \<lparr>type = ''SUBTITLE_RESULT'', requestId = rid,
              data = Some
                \<lparr>title = ttl,
                 author = (if truthy (optProp owner ''name'') then optProp owner ''name''
                           else JStr unknown_author),
                 url = videoUrl,
                 ctime = ct,
                 subtitles = (if truthy body then body else JArr [])\<rparr>,
              error = None\<rparr> @
           [Log msg_sent_ok]"
  using handleSubtitleRequest_success[where w = w, OF assms]
  by (simp add: successResponse_def js_or_def)

theorem success_payload_witness:
  "sends (handleSubtitleRequest (demoRuntime (JObj [(''name'', JStr ''A'')]) [demoTrack])
      openWorld (demoRequest demoUrl)) =
     [\<lparr>type = ''SUBTITLE_RESULT'', requestId = JStr ''r1'',
       data = Some
         \<lparr>title = JStr ''T'', author = JStr ''A'', url = JStr demoUrl, ctime = JNum 1000,
          subtitles = JArr [demoLine]\<rparr>,
       error = None\<rparr>]"
proof -
  have n: "optProp (JObj [(''name'', JStr ''A'')]) ''name'' = JStr ''A''"
    by (simp add: optProp_def)
  show ?thesis
    using success_payload
      [where w = openWorld and rt = "demoRuntime (JObj [(''name'', JStr ''A'')]) [demoTrack]",
        OF demoRequest_props(1) demoRequest_props(2) demo_extractBVID' demo_getVideoInfo
          demoVideoInfo_props(1) demoVideoInfo_props(2) demoVideoInfo_props(3)
          demoVideoInfo_props(5) demo_page(1) demoVideoInfo_props(4) demo_page(2)
          demo_one_track demo_downloadSubtitle demo_body]
    by (simp add: n sends_append sends_sendResponse wsOpen_openWorld)
qed

section \<open>The text of an error response\<close>

text \<open>
  Claim C10. When the \<^verbatim>\<open>try\<close> block of the handler throws a value, the handler hands one
  error response to \<^verbatim>\<open>sendResponse\<close>, and its \<^verbatim>\<open>error\<close> is \<^verbatim>\<open>String\<close> of that value. For an
  \<^verbatim>\<open>Error\<close> object with a message that is not empty this is the message with \<^verbatim>\<open>Error: \<close>
  before it. The failures the source raises itself are of this kind: a URL the pattern
  does not match, a metadata or caption-list answer whose \<^verbatim>\<open>code\<close> is not 0, and an empty
  filtered caption list.
\<close>

theorem error_text_is_rendering:
  assumes "tryBlock rt w request = (es, Inl e)"
    and "getProp request ''requestId'' = Inr rid"
  shows "handleSubtitleRequest rt w request =
           Log msg_begin # es @ Log msg_failed #
           sendResponse w
             \<lparr>type = ''SUBTITLE_RESULT'', requestId = rid, data = None,
              error = Some (String_thrown rt e)\<rparr>
         \<and> (\<forall>m. e = Error m \<and> m \<noteq> [] \<longrightarrow> String_thrown rt e = ''Error: '' @ m)
         \<and> (getProp request ''videoUrl'' = Inr (JStr u) \<and> bvMatch u = None \<longrightarrow>
              String_thrown rt e = ''Error: '' @ err_no_bvid)
         \<and> (getProp request ''videoUrl'' = Inr videoUrl \<and> extractBVID videoUrl = Inr bvid \<and>
            fetch_json rt (''https://api.bilibili.com/x/web-interface/view?bvid='' @ bvid) True
              = Inr result \<and>
            getProp result ''code'' = Inr code \<and> code \<noteq> JNum 0 \<and>
            getProp result ''message'' = Inr m1 \<and> ToString rt m1 = Inr s1 \<longrightarrow>
              String_thrown rt e = ''Error: '' @ err_info_prefix @ s1)
         \<and> (getProp request ''videoUrl'' = Inr videoUrl \<and> extractBVID videoUrl = Inr bvid \<and>
            snd (getVideoInfo rt bvid) = Inr videoInfo \<and>
            getProp videoInfo ''pages'' = Inr pages \<and> getIndex0 pages = Inr pageInfo \<and>
            getProp videoInfo ''aid'' = Inr aid \<and> getProp pageInfo ''cid'' = Inr cid \<and>
            ToString rt aid = Inr a \<and> ToString rt cid = Inr c \<and>
            fetch_json rt (''https://api.bilibili.com/x/player/wbi/v2?aid='' @ a @ ''&cid='' @ c)
              True = Inr result \<and>
            getProp result ''code'' = Inr code \<and> code \<noteq> JNum 0 \<and>
            getProp result ''message'' = Inr m1 \<and> ToString rt m1 = Inr s1 \<longrightarrow>
              String_thrown rt e = ''Error: '' @ err_list_prefix @ s1)
         \<and> (getProp request ''videoUrl'' = Inr videoUrl \<and> extractBVID videoUrl = Inr bvid \<and>
            snd (getVideoInfo rt bvid) = Inr videoInfo \<and>
            getProp videoInfo ''pages'' = Inr pages \<and> getIndex0 pages = Inr pageInfo \<and>
            getProp videoInfo ''aid'' = Inr aid \<and> getProp pageInfo ''cid'' = Inr cid \<and>
            snd (getSubtitleList rt aid cid) = Inr [] \<longrightarrow>
              String_thrown rt e = ''Error: '' @ err_no_subtitle)"
proof -
  have tr: "handleSubtitleRequest rt w request =
           Log msg_begin # es @ Log msg_failed #
           sendResponse w
             \<lparr>type = ''SUBTITLE_RESULT'', requestId = rid, data = None,
              error = Some (String_thrown rt e)\<rparr>"
    using handleSubtitleRequest_thrown[OF assms] by (simp add: errorResponse_def)
  have pre: "\<forall>m. e = Error m \<and> m \<noteq> [] \<longrightarrow> String_thrown rt e = ''Error: '' @ m"
    by (simp add: errorToString_Error)
  from assms(1) have e: "snd (tryBlock rt w request) = Inl e" by simp
  have c1: "String_thrown rt e = ''Error: '' @ err_no_bvid"
    if "getProp request ''videoUrl'' = Inr (JStr u)" "bvMatch u = None"
  proof -
    from tryBlock_no_match[where rt = rt and w = w, OF that] assms(1) have "e = Error err_no_bvid" by simp
    then show ?thesis using err_no_bvid_nonempty by (simp add: errorToString_Error)
  qed
  have c2: "String_thrown rt e = ''Error: '' @ err_info_prefix @ s1"
    if "getProp request ''videoUrl'' = Inr videoUrl" "extractBVID videoUrl = Inr bvid"
      "fetch_json rt (''https://api.bilibili.com/x/web-interface/view?bvid='' @ bvid) True
         = Inr result"
      "getProp result ''code'' = Inr code" "code \<noteq> JNum 0"
      "getProp result ''message'' = Inr m1" "ToString rt m1 = Inr s1"
  proof -
    have "snd (getVideoInfo rt bvid) = Inl (Error (err_info_prefix @ s1))"
      using that(3-7) by (rule getVideoInfo_api_failure)
    with tryBlock_info_failure[where w = w, OF that(1,2)] e
    have "e = Error (err_info_prefix @ s1)" by simp
    then show ?thesis using err_info_prefix_nonempty[of s1] by (simp add: errorToString_Error)
  qed
  have c3: "String_thrown rt e = ''Error: '' @ err_list_prefix @ s1"
    if "getProp request ''videoUrl'' = Inr videoUrl" "extractBVID videoUrl = Inr bvid"
      "snd (getVideoInfo rt bvid) = Inr videoInfo"
      "getProp videoInfo ''pages'' = Inr pages" "getIndex0 pages = Inr pageInfo"
      "getProp videoInfo ''aid'' = Inr aid" "getProp pageInfo ''cid'' = Inr cid"
      "ToString rt aid = Inr a" "ToString rt cid = Inr c"
      "fetch_json rt (''https://api.bilibili.com/x/player/wbi/v2?aid='' @ a @ ''&cid='' @ c)
         True = Inr result"
      "getProp result ''code'' = Inr code" "code \<noteq> JNum 0"
      "getProp result ''message'' = Inr m1" "ToString rt m1 = Inr s1"
  proof -
    have "snd (getSubtitleList rt aid cid) = Inl (Error (err_list_prefix @ s1))"
      using that(8-14) by (rule getSubtitleList_api_failure)
    with tryBlock_list_failure[where w = w, OF that(1-7)] e
    have "e = Error (err_list_prefix @ s1)" by simp
    then show ?thesis using err_list_prefix_nonempty[of s1] by (simp add: errorToString_Error)
  qed
  have c4: "String_thrown rt e = ''Error: '' @ err_no_subtitle"
    if "getProp request ''videoUrl'' = Inr videoUrl" "extractBVID videoUrl = Inr bvid"
      "snd (getVideoInfo rt bvid) = Inr videoInfo"
      "getProp videoInfo ''pages'' = Inr pages" "getIndex0 pages = Inr pageInfo"
      "getProp videoInfo ''aid'' = Inr aid" "getProp pageInfo ''cid'' = Inr cid"
      "snd (getSubtitleList rt aid cid) = Inr []"
  proof -
    note h = that
    obtain es1 es2 where "getVideoInfo rt bvid = (es1, Inr videoInfo)"
      and "getSubtitleList rt aid cid = (es2, Inr [])"
      using h(3,8) by (metis prod.collapse)
    from tryBlock_empty_list[where w = w, OF h(1,2) this(1) h(4-7) this(2)] assms(1)
    have "e = Error err_no_subtitle" by simp
    then show ?thesis using err_no_subtitle_nonempty by (simp add: errorToString_Error)
  qed
  from tr pre c1 c2 c3 c4 show ?thesis by blast
qed

theorem error_text_is_rendering_witness:
  "tryBlock (demoRuntime JNull []) openWorld (demoRequest ''https://www.bilibili.com/'') =
     ([], Inl (Error err_no_bvid))
   \<and> handleSubtitleRequest (demoRuntime JNull []) openWorld
       (demoRequest ''https://www.bilibili.com/'') =
     [Log msg_begin, Log msg_failed,
      Send \<lparr>type = ''SUBTITLE_RESULT'', requestId = JStr ''r1'', data = None,
             error = Some (''Error: '' @ err_no_bvid)\<rparr>]"
proof -
  let ?q = "demoRequest ''https://www.bilibili.com/''"
  let ?rt = "demoRuntime JNull []"
  have tb: "tryBlock ?rt openWorld ?q = ([], Inl (Error err_no_bvid))"
    using demoRequest_props(1) demo_no_match by (rule tryBlock_no_match)
  note t = error_text_is_rendering[where u = "''https://www.bilibili.com/''",
      OF tb demoRequest_props(2)]
  from t have "handleSubtitleRequest ?rt openWorld ?q =
           Log msg_begin # [] @ Log msg_failed #
           sendResponse openWorld
             \<lparr>type = ''SUBTITLE_RESULT'', requestId = JStr ''r1'', data = None,
              error = Some (String_thrown ?rt (Error err_no_bvid))\<rparr>"
    by blast
  moreover from t demoRequest_props(1)[of "''https://www.bilibili.com/''"] demo_no_match
  have "String_thrown ?rt (Error err_no_bvid) = ''Error: '' @ err_no_bvid" by blast
  ultimately have "handleSubtitleRequest ?rt openWorld ?q =
     [Log msg_begin, Log msg_failed,
      Send \<lparr>type = ''SUBTITLE_RESULT'', requestId = JStr ''r1'', data = None,
             error = Some (''Error: '' @ err_no_bvid)\<rparr>]"
    by (simp add: sendResponse_def wsOpen_openWorld)
  with tb show ?thesis by simp
qed

end
